theory Spec2Isabelle
  imports Complex_Main "HOL-Library.Sublist"
begin

section \<open>JavaScript numbers\<close>

text \<open>
  The TypeScript type \<open>number\<close> as the source uses it: a finite value, one of the two
  infinities, or NaN. Finite values are kept as reals; the operations below are the ones
  the source applies (\<open>Math.min\<close>, \<open>Math.max\<close>, \<open><\<close>, \<open>+\<close>, \<open>-\<close>, \<open>*\<close> and
  truthiness), with the IEEE rules for NaN and the infinities written out. Comparisons,
  \<open>Math.min\<close> and \<open>Math.max\<close> never round. \<open>js_add\<close> and \<open>js_sub\<close> give the sum and
  the difference without rounding; the token provider applies them to epoch seconds,
  whole numbers far below \<open>2^53\<close> unless a lifetime with a fraction is configured, and
  on whole numbers of that size binary64 does not round either. \<open>num_add\<close> and
  \<open>num_mul\<close> round their result to binary64 as the engine does; the store of user
  tokens computes its expiry in milliseconds with them, from a lifetime that may be any
  number.
\<close>

datatype jsnum = NaN | NegInf | Fin real | PosInf

fun js_lt :: "jsnum \<Rightarrow> jsnum \<Rightarrow> bool" where
  "js_lt NaN _ = False"
| "js_lt _ NaN = False"
| "js_lt _ NegInf = False"
| "js_lt NegInf _ = True"
| "js_lt PosInf _ = False"
| "js_lt (Fin a) (Fin b) = (a < b)"
| "js_lt (Fin a) PosInf = True"

definition js_gt :: "jsnum \<Rightarrow> jsnum \<Rightarrow> bool" where
  "js_gt a b = js_lt b a"

definition Math_min :: "jsnum \<Rightarrow> jsnum \<Rightarrow> jsnum" where
  "Math_min a b = (if a = NaN \<or> b = NaN then NaN else if js_lt b a then b else a)"

definition Math_max :: "jsnum \<Rightarrow> jsnum \<Rightarrow> jsnum" where
  "Math_max a b = (if a = NaN \<or> b = NaN then NaN else if js_lt a b then b else a)"

fun js_add :: "jsnum \<Rightarrow> jsnum \<Rightarrow> jsnum" where
  "js_add NaN _ = NaN"
| "js_add _ NaN = NaN"
| "js_add PosInf NegInf = NaN"
| "js_add NegInf PosInf = NaN"
| "js_add PosInf _ = PosInf"
| "js_add _ PosInf = PosInf"
| "js_add NegInf _ = NegInf"
| "js_add _ NegInf = NegInf"
| "js_add (Fin a) (Fin b) = Fin (a + b)"

fun js_neg :: "jsnum \<Rightarrow> jsnum" where
  "js_neg NaN = NaN"
| "js_neg NegInf = PosInf"
| "js_neg PosInf = NegInf"
| "js_neg (Fin a) = Fin (- a)"

definition js_sub :: "jsnum \<Rightarrow> jsnum \<Rightarrow> jsnum" where
  "js_sub a b = js_add a (js_neg b)"

text \<open>
  Rounding to binary64, to nearest with ties to even: a number in the binade
  \<open>[2^e, 2^(e+1))\<close> is rounded to a multiple of \<open>2^(e-52)\<close>, the binades below
  \<open>2^(-1022)\<close> share the spacing \<open>2^(-1074)\<close>, and a result of magnitude \<open>2^1024\<close>
  or more is an infinity.
\<close>

definition round_half_even :: "real \<Rightarrow> int" where
  "round_half_even x =
     (let f = \<lfloor>x\<rfloor>; d = x - of_int f in
      if d < 1 / 2 then f else if 1 / 2 < d then f + 1 else if even f then f else f + 1)"

definition binade :: "real \<Rightarrow> int" where
  "binade x = \<lfloor>log 2 \<bar>x\<bar>\<rfloor>"

definition round64 :: "real \<Rightarrow> jsnum" where
  "round64 x =
     (if x = 0 then Fin 0
      else (let u = 2 powr (real_of_int (max (binade x) (- 1022)) - 52);
                y = real_of_int (round_half_even (x / u)) * u
            in if 2 powr 1024 \<le> \<bar>y\<bar> then (if 0 < x then PosInf else NegInf) else Fin y))"

fun num_add :: "jsnum \<Rightarrow> jsnum \<Rightarrow> jsnum" where
  "num_add NaN _ = NaN"
| "num_add _ NaN = NaN"
| "num_add PosInf NegInf = NaN"
| "num_add NegInf PosInf = NaN"
| "num_add PosInf _ = PosInf"
| "num_add _ PosInf = PosInf"
| "num_add NegInf _ = NegInf"
| "num_add _ NegInf = NegInf"
| "num_add (Fin a) (Fin b) = round64 (a + b)"

fun num_mul :: "jsnum \<Rightarrow> jsnum \<Rightarrow> jsnum" where
  "num_mul NaN _ = NaN"
| "num_mul _ NaN = NaN"
| "num_mul (Fin a) (Fin b) = round64 (a * b)"
| "num_mul (Fin a) PosInf = (if a = 0 then NaN else if 0 < a then PosInf else NegInf)"
| "num_mul (Fin a) NegInf = (if a = 0 then NaN else if 0 < a then NegInf else PosInf)"
| "num_mul PosInf (Fin b) = (if b = 0 then NaN else if 0 < b then PosInf else NegInf)"
| "num_mul NegInf (Fin b) = (if b = 0 then NaN else if 0 < b then NegInf else PosInf)"
| "num_mul PosInf PosInf = PosInf"
| "num_mul NegInf NegInf = PosInf"
| "num_mul PosInf NegInf = NegInf"
| "num_mul NegInf PosInf = NegInf"

text \<open>Truthiness of a number: \<open>0\<close> and NaN are falsy.\<close>

definition js_truthy :: "jsnum \<Rightarrow> bool" where
  "js_truthy n = (n \<noteq> NaN \<and> n \<noteq> Fin 0)"

text \<open>Truthiness of a string: only the empty string is falsy.\<close>

definition str_truthy :: "string \<Rightarrow> bool" where
  "str_truthy s = (s \<noteq> [])"

text \<open>Truthiness of \<open>string | undefined\<close>.\<close>

definition opt_truthy :: "string option \<Rightarrow> bool" where
  "opt_truthy v = (case v of None \<Rightarrow> False | Some s \<Rightarrow> str_truthy s)"

section \<open>Developer tokens (auth/appleMusicAuth.ts)\<close>

record AppleMusicAuthConfig =
  teamId :: string
  keyId :: string
  privateKey :: string
  tokenTTLSeconds :: "jsnum option"

definition SIX_MONTHS_SECONDS :: jsnum where
  "SIX_MONTHS_SECONDS = Fin (60 * 60 * 24 * 30 * 6)"

definition clampTTL :: "jsnum \<Rightarrow> jsnum" where
  "clampTTL ttlSeconds = Math_max (Fin 60) (Math_min ttlSeconds SIX_MONTHS_SECONDS)"

subsection \<open>Strings and the environment\<close>

text \<open>
  Strings are sequences of 8-bit characters (header values and environment strings as
  Latin-1). White space is what \<open>String.prototype.trim\<close> and \<open>parseInt\<close> skip, within
  that range: TAB, LF, VT, FF, CR, SPACE and NBSP.
\<close>

definition is_js_space :: "char \<Rightarrow> bool" where
  "is_js_space c = (c = CHR 0x09 \<or> c = CHR 0x0A \<or> c = CHR 0x0B \<or> c = CHR 0x0C
     \<or> c = CHR 0x0D \<or> c = CHR 0x20 \<or> c = CHR 0xA0)"

definition trim :: "string \<Rightarrow> string" where
  "trim s = rev (dropWhile is_js_space (rev (dropWhile is_js_space s)))"

definition is_digit :: "char \<Rightarrow> bool" where
  "is_digit c = (48 \<le> (of_char c :: nat) \<and> (of_char c :: nat) \<le> 57)"

definition digit_val :: "char \<Rightarrow> nat" where
  "digit_val c = of_char c - 48"

text \<open>
  \<open>Number.parseInt(s, 10)\<close>: leading white space is skipped, one sign is accepted, the
  longest run of decimal digits is read and its value rounded to binary64, and the result
  is NaN when there is no digit.
\<close>

definition parseInt10 :: "string \<Rightarrow> jsnum" where
  "parseInt10 s =
     (let s1 = dropWhile is_js_space s;
          neg = (case s1 of [] \<Rightarrow> False | c # _ \<Rightarrow> c = CHR ''-'');
          s2 = (case s1 of [] \<Rightarrow> [] | c # r \<Rightarrow> if c = CHR ''-'' \<or> c = CHR ''+'' then r else s1);
          ds = takeWhile is_digit s2;
          n = foldl (\<lambda>a c. 10 * a + digit_val c) 0 ds
      in if ds = [] then NaN else if neg then round64 (- real n) else round64 (real n))"

datatype js_error = Error string

record process_env =
  APPLE_MUSIC_TEAM_ID :: "string option"
  APPLE_MUSIC_KEY_ID :: "string option"
  APPLE_MUSIC_PRIVATE_KEY :: "string option"
  APPLE_MUSIC_DEV_TOKEN_TTL_SECONDS :: "string option"

definition getDeveloperConfigFromEnv :: "process_env \<Rightarrow> js_error + AppleMusicAuthConfig" where
  "getDeveloperConfigFromEnv env =
     (let ttl = (case APPLE_MUSIC_DEV_TOKEN_TTL_SECONDS env of
                   None \<Rightarrow> None
                 | Some v \<Rightarrow> if str_truthy v then Some (parseInt10 v) else None)
      in if \<not> opt_truthy (APPLE_MUSIC_TEAM_ID env) \<or> \<not> opt_truthy (APPLE_MUSIC_KEY_ID env)
            \<or> \<not> opt_truthy (APPLE_MUSIC_PRIVATE_KEY env)
         then Inl (Error ''Missing Apple Music credentials. Set APPLE_MUSIC_TEAM_ID, APPLE_MUSIC_KEY_ID, APPLE_MUSIC_PRIVATE_KEY in env.'')
         else Inr \<lparr> teamId = the (APPLE_MUSIC_TEAM_ID env), keyId = the (APPLE_MUSIC_KEY_ID env),
                    privateKey = the (APPLE_MUSIC_PRIVATE_KEY env), tokenTTLSeconds = ttl \<rparr>)"

text \<open>
  The lifetime \<open>generateDeveloperToken\<close> signs into the token:
  \<open>clampTTL(config.tokenTTLSeconds ?? 60 * 60 * 24)\<close>.
\<close>

definition generateDeveloperToken_ttl :: "AppleMusicAuthConfig \<Rightarrow> jsnum" where
  "generateDeveloperToken_ttl config =
     clampTTL (case tokenTTLSeconds config of None \<Rightarrow> Fin (60 * 60 * 24) | Some t \<Rightarrow> t)"

subsection \<open>createDeveloperTokenProvider\<close>

text \<open>
  \<open>getToken\<close> is an async function; it is split at its await points into the three
  pieces of code that run without interruption:
  \<^item> \<open>Call\<close>: the body of \<open>getToken\<close> from its first line to \<open>return cached.token\<close>,
    to \<open>return inFlight\<close>, or to \<open>await inFlight\<close>; the last case includes the start of
    the inner async function, which resolves the configuration and calls
    \<open>generateDeveloperToken\<close>;
  \<^item> \<open>MintDone\<close>: the rest of the inner async function, run when the awaited
    \<open>generateDeveloperToken\<close> settles (signing and \<open>decodeJwt\<close> are outside the
    repository, so their outcome is an input of the step);
  \<^item> \<open>Resume\<close>: the continuation of a caller once the promise it waits for has
    settled; for the caller that started the mint this runs the \<open>finally\<close> block.
  Promises are numbered in the order they are created. A pending promise keeps what the
  inner function has captured: \<open>now\<close> of the call that started it and the resolved
  configuration. A caller is named by a number that no other call uses; it waits for a
  promise (\<open>Awaiting p True\<close> for the caller inside \<open>try\<close>, \<open>Awaiting p False\<close> for a
  caller that returned \<open>inFlight\<close>), has returned a token, or has thrown. \<open>Call\<close>
  carries the caller, \<open>Math.floor(Date.now() / 1000)\<close> and \<open>process.env\<close> at that time;
  \<open>Minted tok e\<close> is a signed token with the \<open>exp\<close> that \<open>decodeJwt\<close> reads from it when
  that is a number; \<open>MintThrows\<close> is an exception from signing or decoding.
\<close>

record CachedToken =
  token :: string
  expiresAtEpoch :: jsnum

datatype promise_state =
    Pending int AppleMusicAuthConfig
  | Fulfilled string
  | Rejected js_error

datatype caller_state =
    Awaiting nat bool
  | Returned string
  | Threw js_error

datatype mint_outcome =
    Minted string "jsnum option"
  | MintThrows js_error

datatype event =
    Call nat int process_env
  | MintDone nat mint_outcome
  | Resume nat

record provider =
  initialConfig :: "AppleMusicAuthConfig option"
  cached :: "CachedToken option"
  inFlight :: "nat option"
  promises :: "promise_state list"
  callers :: "nat \<rightharpoonup> caller_state"
  mintCalls :: nat

text \<open>
  The closure \<open>createDeveloperTokenProvider\<close> returns: nothing cached, nothing in
  flight. \<open>mintCalls\<close> counts the calls to \<open>generateDeveloperToken\<close>.
\<close>

definition createDeveloperTokenProvider :: "AppleMusicAuthConfig option \<Rightarrow> provider" where
  "createDeveloperTokenProvider config =
     \<lparr> initialConfig = config, cached = None, inFlight = None, promises = [],
       callers = Map.empty, mintCalls = 0 \<rparr>"

text \<open>\<open>cached && cached.expiresAtEpoch - 300 > now\<close>\<close>

definition cache_valid :: "provider \<Rightarrow> int \<Rightarrow> bool" where
  "cache_valid s now =
     (case cached s of None \<Rightarrow> False
      | Some c \<Rightarrow> js_gt (js_sub (expiresAtEpoch c) (Fin 300)) (Fin (real_of_int now)))"

text \<open>\<open>initialConfig ?? getDeveloperConfigFromEnv()\<close>\<close>

definition resolve_config :: "provider \<Rightarrow> process_env \<Rightarrow> js_error + AppleMusicAuthConfig" where
  "resolve_config s env =
     (case initialConfig s of Some c \<Rightarrow> Inr c | None \<Rightarrow> getDeveloperConfigFromEnv env)"

definition getToken_call :: "nat \<Rightarrow> int \<Rightarrow> process_env \<Rightarrow> provider \<Rightarrow> provider option" where
  "getToken_call c now env s =
     (if callers s c \<noteq> None then None
      else if cache_valid s now
        then Some (s\<lparr> callers := (callers s)(c \<mapsto> Returned (token (the (cached s)))) \<rparr>)
      else (case inFlight s of
          Some p \<Rightarrow> Some (s\<lparr> callers := (callers s)(c \<mapsto> Awaiting p False) \<rparr>)
        | None \<Rightarrow>
            (let p = length (promises s) in
             case resolve_config s env of
               Inl err \<Rightarrow>
                 Some (s\<lparr> promises := promises s @ [Rejected err],
                          inFlight := Some p,
                          callers := (callers s)(c \<mapsto> Awaiting p True) \<rparr>)
             | Inr config \<Rightarrow>
                 Some (s\<lparr> promises := promises s @ [Pending now config],
                          mintCalls := mintCalls s + 1,
                          inFlight := Some p,
                          callers := (callers s)(c \<mapsto> Awaiting p True) \<rparr>))))"

definition mint_done :: "nat \<Rightarrow> mint_outcome \<Rightarrow> provider \<Rightarrow> provider option" where
  "mint_done p outcome s =
     (if p < length (promises s) then
        (case promises s ! p of
           Pending now config \<Rightarrow>
             (case outcome of
                MintThrows err \<Rightarrow> Some (s\<lparr> promises := (promises s)[p := Rejected err] \<rparr>)
              | Minted tok decoded_exp \<Rightarrow>
                  (let exp = (case decoded_exp of
                                Some e \<Rightarrow> e
                              | None \<Rightarrow> js_add (Fin (real_of_int now))
                                  (clampTTL (case tokenTTLSeconds config of
                                               None \<Rightarrow> Fin 3600 | Some t \<Rightarrow> t)))
                   in Some (s\<lparr> cached := Some \<lparr> token = tok, expiresAtEpoch = exp \<rparr>,
                               inFlight := None,
                               promises := (promises s)[p := Fulfilled tok] \<rparr>)))
         | _ \<Rightarrow> None)
      else None)"

definition resume :: "nat \<Rightarrow> provider \<Rightarrow> provider option" where
  "resume c s =
     (case callers s c of
        Some (Awaiting p owner) \<Rightarrow>
          (if p < length (promises s) then
             (case promises s ! p of
                Pending _ _ \<Rightarrow> None
              | Fulfilled tok \<Rightarrow>
                  Some (s\<lparr> inFlight := (if owner then None else inFlight s),
                           callers := (callers s)(c \<mapsto> Returned tok) \<rparr>)
              | Rejected err \<Rightarrow>
                  Some (s\<lparr> inFlight := (if owner then None else inFlight s),
                           callers := (callers s)(c \<mapsto> Threw err) \<rparr>))
           else None)
      | _ \<Rightarrow> None)"

fun step :: "event \<Rightarrow> provider \<Rightarrow> provider option" where
  "step (Call c now env) s = getToken_call c now env s"
| "step (MintDone p outcome) s = mint_done p outcome s"
| "step (Resume c) s = resume c s"

fun exec :: "event list \<Rightarrow> provider \<Rightarrow> provider option" where
  "exec [] s = Some s"
| "exec (e # es) s = (case step e s of None \<Rightarrow> None | Some s' \<Rightarrow> exec es s')"

text \<open>What a caller gets once the promise it holds has settled with this outcome.\<close>

fun outcome_result :: "mint_outcome \<Rightarrow> caller_state" where
  "outcome_result (Minted tok _) = Returned tok"
| "outcome_result (MintThrows err) = Threw err"

section \<open>HTTP values\<close>

text \<open>
  A parsed \<open>URL\<close>: its query as the list of name-value pairs \<open>searchParams\<close> holds, and
  everything else as one string. \<open>new URL(s)\<close> belongs to the platform, so the handlers
  take the parser as a parameter; \<open>None\<close> is the \<open>TypeError\<close> it throws.
\<close>

record url =
  url_base :: string
  searchParams :: "(string \<times> string) list"

text \<open>\<open>URLSearchParams.set\<close>: the first pair of that name gets the value and the others
  of that name are removed; without such a pair one is appended.\<close>

fun sp_set :: "string \<Rightarrow> string \<Rightarrow> (string \<times> string) list \<Rightarrow> (string \<times> string) list" where
  "sp_set k v [] = [(k, v)]"
| "sp_set k v (p # ps) =
     (if fst p = k then (k, v) # filter (\<lambda>q. fst q \<noteq> k) ps else p # sp_set k v ps)"

text \<open>\<open>URLSearchParams.get\<close>: the value of the first pair of that name.\<close>

definition sp_get :: "(string \<times> string) list \<Rightarrow> string \<Rightarrow> string option" where
  "sp_get ps k = map_of ps k"

text \<open>A parser for the concrete runs below: it takes every string as a URL with an
  empty query.\<close>

definition url_without_query :: "string \<Rightarrow> url option" where
  "url_without_query s = Some \<lparr> url_base = s, searchParams = [] \<rparr>"

text \<open>
  A response: the status, the headers other than \<open>Location\<close>, the URL of the
  \<open>Location\<close> header before \<open>toString\<close>, and the body. \<open>AuthorizePage state tok\<close> is
  the HTML page with the state and the developer token written into its script.
\<close>

datatype json = JString string | JNumber int

datatype body =
    NoBody
  | TextBody string
  | JsonBody "(string \<times> json) list"
  | AuthorizePage string string

record http_response =
  status :: nat
  headers :: "(string \<times> string) list"
  location :: "url option"
  body :: body

section \<open>Session-tracking OAuth server (auth/oauthServer.ts)\<close>

record pending_state =
  redirectUri :: string
  stateExpiresAt :: int

record stored_token =
  userToken :: string
  userExpiresAt :: "jsnum option"

record oauth_server =
  pendingStates :: "string \<rightharpoonup> pending_state"
  userTokens :: "string \<rightharpoonup> stored_token"

text \<open>The callback of \<open>setInterval\<close>, run at time \<open>now\<close> (milliseconds).\<close>

definition sweepPendingStates :: "int \<Rightarrow> oauth_server \<Rightarrow> oauth_server" where
  "sweepPendingStates now st =
     st\<lparr> pendingStates := (\<lambda>state. case pendingStates st state of
             None \<Rightarrow> None
           | Some d \<Rightarrow> if stateExpiresAt d < now then None else Some d) \<rparr>"

definition getStoredUserToken ::
  "string option \<Rightarrow> int \<Rightarrow> oauth_server \<Rightarrow> string option \<times> oauth_server" where
  "getStoredUserToken sessionId now st =
     (if \<not> opt_truthy sessionId then (None, st)
      else (case userTokens st (the sessionId) of
          None \<Rightarrow> (None, st)
        | Some stored \<Rightarrow>
            if (case userExpiresAt stored of
                  None \<Rightarrow> False
                | Some e \<Rightarrow> js_truthy e \<and> js_lt e (Fin (real_of_int now)))
            then (None, st\<lparr> userTokens := (userTokens st)(the sessionId := None) \<rparr>)
            else (Some (userToken stored), st)))"

definition storeUserToken ::
  "string \<Rightarrow> string \<Rightarrow> jsnum option \<Rightarrow> int \<Rightarrow> oauth_server \<Rightarrow> oauth_server" where
  "storeUserToken sessionId tok expiresIn now st =
     (let expiresAt = (case expiresIn of
                         None \<Rightarrow> None
                       | Some n \<Rightarrow> if js_truthy n
                                   then Some (num_add (Fin (real_of_int now)) (num_mul n (Fin 1000)))
                                   else None)
      in st\<lparr> userTokens := (userTokens st)(sessionId \<mapsto>
               \<lparr> userToken = tok, userExpiresAt = expiresAt \<rparr>) \<rparr>)"

text \<open>
  The handlers take the decoded parameters (\<open>searchParams\<close>, or
  \<open>new URLSearchParams(body)\<close>), the clock, the value \<open>randomUUID()\<close> returns and the
  outcome of the awaited developer token. A handler that throws returns \<open>Inl\<close>, with
  the state as the statements before the throw left it.
\<close>

definition oauthServer_handleOAuthAuthorize ::
  "(string \<times> string) list \<Rightarrow> int \<Rightarrow> js_error + string \<Rightarrow> oauth_server
     \<Rightarrow> (js_error + http_response) \<times> oauth_server" where
  "oauthServer_handleOAuthAuthorize params now developerToken st =
     (let redirect = sp_get params ''redirect_uri''; state = sp_get params ''state'' in
      if \<not> opt_truthy redirect \<or> \<not> opt_truthy state
      then (Inr \<lparr> status = 400, headers = [(''content-type'', ''text/plain'')],
                  location = None, body = TextBody ''Missing redirect_uri or state'' \<rparr>, st)
      else
        (let st1 = st\<lparr> pendingStates := (pendingStates st)(the state \<mapsto>
                      \<lparr> redirectUri = the redirect, stateExpiresAt = now + 600000 \<rparr>) \<rparr>
         in case developerToken of
              Inl err \<Rightarrow> (Inl err, st1)
            | Inr tok \<Rightarrow>
                (Inr \<lparr> status = 200, headers = [(''content-type'', ''text/html'')],
                       location = None, body = AuthorizePage (the state) tok \<rparr>, st1)))"

definition oauthServer_handleOAuthCallback ::
  "(string \<Rightarrow> url option) \<Rightarrow> (string \<times> string) list \<Rightarrow> int \<Rightarrow> string \<Rightarrow> oauth_server
     \<Rightarrow> (js_error + http_response) \<times> oauth_server" where
  "oauthServer_handleOAuthCallback parseURL params now uuid st =
     (let musicUserToken = sp_get params ''music_user_token''; state = sp_get params ''state'' in
      if \<not> opt_truthy musicUserToken \<or> \<not> opt_truthy state
      then (Inr \<lparr> status = 400, headers = [(''content-type'', ''text/plain'')],
                  location = None, body = TextBody ''Missing token or state'' \<rparr>, st)
      else (case pendingStates st (the state) of
          None \<Rightarrow>
            (Inr \<lparr> status = 400, headers = [(''content-type'', ''text/plain'')],
                   location = None, body = TextBody ''Invalid or expired state'' \<rparr>, st)
        | Some stateData \<Rightarrow>
            (let st1 = st\<lparr> pendingStates := (pendingStates st)(the state := None) \<rparr>;
                 st2 = storeUserToken uuid (the musicUserToken) None now st1
             in case parseURL (redirectUri stateData) of
                  None \<Rightarrow> (Inl (Error ''Invalid URL''), st2)
                | Some u \<Rightarrow>
                    (Inr \<lparr> status = 302, headers = [],
                           location = Some (u\<lparr> searchParams :=
                             sp_set ''state'' (the state)
                               (sp_set ''code'' (the musicUserToken) (searchParams u)) \<rparr>),
                           body = NoBody \<rparr>, st2))))"

section \<open>Token exchange of the session-tracking build (build/auth/oauthToken.js)\<close>

definition oauthToken_handleOAuthToken ::
  "(string \<times> string) list \<Rightarrow> int \<Rightarrow> string \<Rightarrow> oauth_server \<Rightarrow> http_response \<times> oauth_server" where
  "oauthToken_handleOAuthToken params now uuid st =
     (let grantType = sp_get params ''grant_type''; code = sp_get params ''code'' in
      if grantType \<noteq> Some ''authorization_code'' \<or> \<not> opt_truthy code
      then (\<lparr> status = 400, headers = [(''content-type'', ''application/json'')],
               location = None, body = JsonBody [(''error'', JString ''invalid_request'')] \<rparr>, st)
      else (\<lparr> status = 200,
               headers = [(''content-type'', ''application/json''), (''cache-control'', ''no-store'')],
               location = None,
               body = JsonBody [(''access_token'', JString uuid),
                                (''token_type'', JString ''Bearer''),
                                (''expires_in'', JNumber (3600 * 24 * 90)),
                                (''scope'', JString ''music.library.read music.library.write'')] \<rparr>,
            storeUserToken uuid (the code) (Some (Fin (3600 * 24 * 90))) now st))"

section \<open>The stateless server (client.ts)\<close>

subsection \<open>OAuth handlers\<close>

definition handleOAuthCallback ::
  "(string \<Rightarrow> url option) \<Rightarrow> (string \<times> string) list \<Rightarrow> js_error + http_response" where
  "handleOAuthCallback parseURL params =
     (let tok = sp_get params ''music_user_token''; state = sp_get params ''state'';
          redirect = sp_get params ''redirect_uri'' in
      if \<not> opt_truthy tok \<or> \<not> opt_truthy state \<or> \<not> opt_truthy redirect
      then Inr \<lparr> status = 400, headers = [(''content-type'', ''text/plain'')],
                 location = None, body = TextBody ''Missing parameters'' \<rparr>
      else (case parseURL (the redirect) of
          None \<Rightarrow> Inl (Error ''Invalid URL'')
        | Some u \<Rightarrow>
            Inr \<lparr> status = 302, headers = [(''cache-control'', ''no-store'')],
                  location = Some (u\<lparr> searchParams :=
                    sp_set ''state'' (the state) (sp_set ''code'' (the tok) (searchParams u)) \<rparr>),
                  body = NoBody \<rparr>))"

definition handleOAuthToken :: "(string \<times> string) list \<Rightarrow> http_response" where
  "handleOAuthToken params =
     (let grantType = sp_get params ''grant_type''; code = sp_get params ''code'' in
      if grantType \<noteq> Some ''authorization_code'' \<or> \<not> opt_truthy code
      then \<lparr> status = 400,
              headers = [(''content-type'', ''application/json''), (''cache-control'', ''no-store''),
                         (''access-control-allow-origin'', ''*'')],
              location = None, body = JsonBody [(''error'', JString ''invalid_request'')] \<rparr>
      else \<lparr> status = 200,
              headers = [(''content-type'', ''application/json''), (''cache-control'', ''no-store''),
                         (''access-control-allow-origin'', ''*'')],
              location = None,
              body = JsonBody [(''access_token'', JString (the code)),
                               (''token_type'', JString ''Bearer''),
                               (''expires_in'', JNumber (60 * 60 * 24 * 90)),
                               (''scope'', JString ''music.library.read music.library.write'')] \<rparr>)"

subsection \<open>Bearer headers\<close>

text \<open>\<open>String.prototype.split(" ")\<close>: the pieces between single spaces.\<close>

fun split_space :: "string \<Rightarrow> string list" where
  "split_space [] = [[]]"
| "split_space (c # cs) =
     (if c = CHR '' '' then [] # split_space cs
      else (case split_space cs of [] \<Rightarrow> [[c]] | w # ws \<Rightarrow> (c # w) # ws))"

text \<open>
  \<open>toLowerCase\<close> on 8-bit characters: A to Z and the accented capitals of Latin-1
  (0xC0 to 0xDE without the multiplication sign) go to the letter 32 places further,
  which is the same character with bit 5 set; every other character stays.
\<close>

definition lower_char :: "char \<Rightarrow> char" where
  "lower_char c =
     (let n = (of_char c :: nat) in
      if (65 \<le> n \<and> n \<le> 90) \<or> (192 \<le> n \<and> n \<le> 222 \<and> n \<noteq> 215)
      then (case c of Char b0 b1 b2 b3 b4 b5 b6 b7 \<Rightarrow> Char b0 b1 b2 b3 b4 True b6 b7)
      else c)"

definition toLowerCase :: "string \<Rightarrow> string" where
  "toLowerCase s = map lower_char s"

definition parseBearerToken :: "string option \<Rightarrow> string option" where
  "parseBearerToken authHeader =
     (if \<not> opt_truthy authHeader then None
      else (case split_space (the authHeader) of
          scheme # value # _ \<Rightarrow>
            if \<not> str_truthy scheme \<or> \<not> str_truthy value then None
            else if toLowerCase scheme \<noteq> ''bearer'' then None
            else Some (trim value)
        | _ \<Rightarrow> None))"

subsection \<open>Session tokens\<close>

record mcp_state =
  sessionTokens :: "string \<rightharpoonup> string"
  pendingToken :: "string option"

text \<open>The block of \<open>main\<close> that runs before the transport handles a request.\<close>

definition bindTokens :: "string option \<Rightarrow> string option \<Rightarrow> mcp_state \<Rightarrow> mcp_state" where
  "bindTokens authHeader sessionId st =
     (if opt_truthy authHeader then
        (case parseBearerToken authHeader of
           None \<Rightarrow> st
         | Some tok \<Rightarrow>
             if str_truthy tok then
               (let st1 = st\<lparr> pendingToken := Some tok \<rparr> in
                if opt_truthy sessionId
                then st1\<lparr> sessionTokens := (sessionTokens st1)(the sessionId \<mapsto> tok) \<rparr>
                else st1)
             else st)
      else if opt_truthy sessionId \<and> opt_truthy (pendingToken st)
        then st\<lparr> sessionTokens := (sessionTokens st)(the sessionId \<mapsto> the (pendingToken st)) \<rparr>
      else st)"

subsection \<open>Routing in main\<close>

record http_request =
  req_method :: string
  rawPath :: string
  authorization :: "string option"
  mcp_session_id :: "string option"

datatype route =
    OAuthAuthorize
  | OAuthCallback
  | AuthorizationServerMetadata
  | OpenidConfiguration
  | ProtectedResourceMetadata
  | LegacyMetadata
  | TokenOptions
  | TokenPost
  | Unauthorized401
  | NotFound404
  | Options204
  | McpTransport

definition stripMcpPrefix :: "string \<Rightarrow> string" where
  "stripMcpPrefix pathname = (if prefix ''/mcp/'' pathname then drop 4 pathname else pathname)"

text \<open>
  The chain of \<open>if\<close> statements in the request listener, in its order; \<open>rawPath\<close> is
  \<open>url.pathname\<close>. A request to \<open>/oauth/token\<close> that is neither OPTIONS nor POST falls
  through to the checks that follow it.
\<close>

definition route_request :: "http_request \<Rightarrow> route" where
  "route_request req =
     (let path = stripMcpPrefix (rawPath req); m = req_method req in
      if path = ''/oauth/authorize'' \<and> m = ''GET'' then OAuthAuthorize
      else if path = ''/oauth/callback'' \<and> m = ''POST'' then OAuthCallback
      else if prefix ''/.well-known/oauth-authorization-server'' path \<and> m = ''GET''
        then AuthorizationServerMetadata
      else if prefix ''/.well-known/openid-configuration'' path \<and> m = ''GET''
        then OpenidConfiguration
      else if prefix ''/.well-known/oauth-protected-resource'' path \<and> m = ''GET''
        then ProtectedResourceMetadata
      else if path = ''/mcp/oauth/metadata'' \<and> m = ''GET'' then LegacyMetadata
      else if path = ''/oauth/token'' \<and> m = ''OPTIONS'' then TokenOptions
      else if path = ''/oauth/token'' \<and> m = ''POST'' then TokenPost
      else if prefix ''/mcp'' (rawPath req) \<and> \<not> opt_truthy (authorization req) then Unauthorized401
      else if \<not> prefix ''/mcp'' (rawPath req) then NotFound404
      else if m = ''OPTIONS'' then Options204
      else McpTransport)"

text \<open>
  The effect of one request on the session tokens: only a request that reaches the
  transport runs \<open>bindTokens\<close>; no other branch of the listener writes to them.
\<close>

definition main_request :: "http_request \<Rightarrow> mcp_state \<Rightarrow> route \<times> mcp_state" where
  "main_request req st =
     (let r = route_request req in
      if r = McpTransport
      then (r, bindTokens (authorization req) (mcp_session_id req) st)
      else (r, st))"

text \<open>
  The listener serving requests one after the other: the state after the last of them.
\<close>

fun main_requests :: "http_request list \<Rightarrow> mcp_state \<Rightarrow> mcp_state" where
  "main_requests [] st = st"
| "main_requests (req # reqs) st = main_requests reqs (snd (main_request req st))"

subsection \<open>Tool handlers\<close>

datatype header_value = Single string | Multi "string list"

record tool_extra =
  sessionId :: "string option"
  requestHeaders :: "(string \<rightharpoonup> header_value) option"

fun session_lookup :: "(string \<rightharpoonup> header_value) \<Rightarrow> string list \<Rightarrow> string option" where
  "session_lookup h [] = None"
| "session_lookup h (key # keys) =
     (case h key of
        Some (Multi entries) \<Rightarrow>
          (case find str_truthy entries of Some e \<Rightarrow> Some e | None \<Rightarrow> session_lookup h keys)
      | Some (Single raw) \<Rightarrow> if 0 < length raw then Some raw else session_lookup h keys
      | None \<Rightarrow> session_lookup h keys)"

definition getSessionIdFromHeaders :: "(string \<rightharpoonup> header_value) option \<Rightarrow> string option" where
  "getSessionIdFromHeaders hs =
     (case hs of
        None \<Rightarrow> None
      | Some h \<Rightarrow> session_lookup h
          [''mcp-session-id'', ''Mcp-Session-Id'', ''x-mcp-session-id'', ''X-MCP-Session-Id''])"

definition resolveSessionId :: "tool_extra option \<Rightarrow> string option" where
  "resolveSessionId extra =
     (case extra of
        None \<Rightarrow> getSessionIdFromHeaders None
      | Some x \<Rightarrow> if opt_truthy (sessionId x) then sessionId x
                  else getSessionIdFromHeaders (requestHeaders x))"

text \<open>\<open>sessionId ? sessionTokens.get(sessionId) : pendingToken\<close>, as every library tool
  computes its user token.\<close>

definition tool_userToken :: "tool_extra option \<Rightarrow> mcp_state \<Rightarrow> string option" where
  "tool_userToken extra st =
     (let sid = resolveSessionId extra in
      if opt_truthy sid then sessionTokens st (the sid) else pendingToken st)"

text \<open>
  The user token a tool handler computes while the transport serves a request:
  \<open>None\<close> when the listener answers the request itself and no handler runs.
\<close>

definition request_userToken ::
  "http_request \<Rightarrow> tool_extra option \<Rightarrow> mcp_state \<Rightarrow> string option option" where
  "request_userToken req extra st =
     (case main_request req st of
        (McpTransport, st') \<Rightarrow> Some (tool_userToken extra st')
      | _ \<Rightarrow> None)"

section \<open>Lifetime clamping\<close>

lemma clampTTL_in_range:
  assumes "L \<noteq> NaN"
  shows "\<exists>r. clampTTL L = Fin r \<and> 60 \<le> r \<and> r \<le> 15552000"
  using assms
  by (cases L) (auto simp: clampTTL_def Math_min_def Math_max_def SIX_MONTHS_SECONDS_def)

lemma clampTTL_identity:
  assumes "60 \<le> x" "x \<le> 15552000"
  shows "clampTTL (Fin x) = Fin x"
  using assms by (auto simp: clampTTL_def Math_min_def Math_max_def SIX_MONTHS_SECONDS_def)

lemma parseInt10_not_a_number: "parseInt10 ''abc'' = NaN"
  by (simp add: parseInt10_def is_js_space_def is_digit_def)

lemma config_from_env_NaN_ttl:
  "getDeveloperConfigFromEnv \<lparr> APPLE_MUSIC_TEAM_ID = Some ''T1'', APPLE_MUSIC_KEY_ID = Some ''K1'',
       APPLE_MUSIC_PRIVATE_KEY = Some ''PEM'', APPLE_MUSIC_DEV_TOKEN_TTL_SECONDS = Some ''abc'' \<rparr>
     = Inr \<lparr> teamId = ''T1'', keyId = ''K1'', privateKey = ''PEM'', tokenTTLSeconds = Some NaN \<rparr>"
  by (simp add: getDeveloperConfigFromEnv_def parseInt10_not_a_number opt_truthy_def str_truthy_def)

lemma generateDeveloperToken_ttl_NaN:
  "generateDeveloperToken_ttl
     \<lparr> teamId = ''T1'', keyId = ''K1'', privateKey = ''PEM'', tokenTTLSeconds = Some NaN \<rparr> = NaN"
  by (simp add: generateDeveloperToken_ttl_def clampTTL_def Math_min_def Math_max_def)

text \<open>
  Claim C6. For every requested lifetime \<open>L\<close>, \<open>clampTTL L\<close> lies in
  \<open>[60, 15552000]\<close> and equals \<open>L\<close> when \<open>L\<close> is in that interval. The two lemmas
  \<open>clampTTL_in_range\<close> and \<open>clampTTL_identity\<close> show this for every number, the
  infinities included. It fails for the one remaining value of the type: NaN goes through
  \<open>Math.min\<close> and \<open>Math.max\<close> unchanged, so \<open>clampTTL\<close> returns NaN, which is in no
  interval. \<open>getDeveloperConfigFromEnv\<close> produces that lifetime from an environment
  whose \<open>APPLE_MUSIC_DEV_TOKEN_TTL_SECONDS\<close> has no leading digits
  (\<open>config_from_env_NaN_ttl\<close>).
\<close>

theorem clampTTL_NaN_unclamped: "clampTTL NaN = NaN"
  by (simp add: clampTTL_def Math_min_def Math_max_def)

section \<open>The developer-token provider\<close>

lemma cache_valid_iff:
  "cache_valid s now \<longleftrightarrow>
     (\<exists>ct. cached s = Some ct \<and> js_gt (expiresAtEpoch ct) (Fin (real_of_int now + 300)))"
proof (cases "cached s")
  case None
  then show ?thesis by (simp add: cache_valid_def)
next
  case (Some ct)
  then show ?thesis
    by (cases "expiresAtEpoch ct") (auto simp: cache_valid_def js_gt_def js_sub_def)
qed

lemma cache_valid_earlier:
  assumes "now \<le> now'" "cache_valid s now'"
  shows "cache_valid s now"
proof -
  from assms(2) obtain ct where ct: "cached s = Some ct"
    "js_gt (expiresAtEpoch ct) (Fin (real_of_int now' + 300))"
    by (auto simp: cache_valid_iff)
  from ct(2) assms(1) have "js_gt (expiresAtEpoch ct) (Fin (real_of_int now + 300))"
    by (cases "expiresAtEpoch ct") (auto simp: js_gt_def)
  with ct(1) show ?thesis by (auto simp: cache_valid_iff)
qed

lemma call_fresh:
  assumes "callers s c = None" "\<not> cache_valid s now" "inFlight s = None"
  shows "getToken_call c now env s =
     (case resolve_config s env of
        Inl err \<Rightarrow> Some (s\<lparr> promises := promises s @ [Rejected err],
                          inFlight := Some (length (promises s)),
                          callers := (callers s)(c \<mapsto> Awaiting (length (promises s)) True) \<rparr>)
      | Inr config \<Rightarrow> Some (s\<lparr> promises := promises s @ [Pending now config],
                          mintCalls := mintCalls s + 1,
                          inFlight := Some (length (promises s)),
                          callers := (callers s)(c \<mapsto> Awaiting (length (promises s)) True) \<rparr>))"
  using assms by (simp add: getToken_call_def Let_def split: sum.splits)

lemma call_join:
  assumes "callers s c = None" "\<not> cache_valid s now" "inFlight s = Some p"
  shows "getToken_call c now env s =
     Some (s\<lparr> callers := (callers s)(c \<mapsto> Awaiting p False) \<rparr>)"
  using assms by (simp add: getToken_call_def)

lemma call_cached:
  assumes "callers s c = None" "cache_valid s now"
  shows "getToken_call c now env s =
     Some (s\<lparr> callers := (callers s)(c \<mapsto> Returned (token (the (cached s)))) \<rparr>)"
  using assms by (simp add: getToken_call_def)

lemma cache_valid_upd [simp]:
  "cache_valid (s\<lparr> callers := x \<rparr>) now = cache_valid s now"
  "cache_valid (s\<lparr> promises := y \<rparr>) now = cache_valid s now"
  "cache_valid (s\<lparr> inFlight := z \<rparr>) now = cache_valid s now"
  "cache_valid (s\<lparr> mintCalls := w \<rparr>) now = cache_valid s now"
  by (simp_all add: cache_valid_def)

lemma resolve_config_upd [simp]:
  "resolve_config (s\<lparr> callers := x \<rparr>) env = resolve_config s env"
  "resolve_config (s\<lparr> promises := y \<rparr>) env = resolve_config s env"
  "resolve_config (s\<lparr> inFlight := z \<rparr>) env = resolve_config s env"
  "resolve_config (s\<lparr> mintCalls := w \<rparr>) env = resolve_config s env"
  by (simp_all add: resolve_config_def)

lemma step_keeps_flight:
  assumes nocall: "\<forall>c n e. ev \<noteq> Call c n e"
    and run: "step ev t = Some t'"
    and p: "p < length (promises t)"
    and ne: "c1 \<noteq> c2"
    and inv: "case promises t ! p of
        Pending n cfg \<Rightarrow> callers t c1 = Some (Awaiting p o1) \<and> callers t c2 = Some (Awaiting p o2)
      | Fulfilled tok \<Rightarrow>
          (callers t c1 = Some (Awaiting p o1) \<or> callers t c1 = Some (Returned tok))
          \<and> (callers t c2 = Some (Awaiting p o2) \<or> callers t c2 = Some (Returned tok))
      | Rejected err \<Rightarrow>
          (callers t c1 = Some (Awaiting p o1) \<or> callers t c1 = Some (Threw err))
          \<and> (callers t c2 = Some (Awaiting p o2) \<or> callers t c2 = Some (Threw err))"
  shows "mintCalls t' = mintCalls t \<and> length (promises t') = length (promises t)
       \<and> (case promises t' ! p of
        Pending n cfg \<Rightarrow> callers t' c1 = Some (Awaiting p o1) \<and> callers t' c2 = Some (Awaiting p o2)
      | Fulfilled tok \<Rightarrow>
          (callers t' c1 = Some (Awaiting p o1) \<or> callers t' c1 = Some (Returned tok))
          \<and> (callers t' c2 = Some (Awaiting p o2) \<or> callers t' c2 = Some (Returned tok))
      | Rejected err \<Rightarrow>
          (callers t' c1 = Some (Awaiting p o1) \<or> callers t' c1 = Some (Threw err))
          \<and> (callers t' c2 = Some (Awaiting p o2) \<or> callers t' c2 = Some (Threw err)))"
proof (cases ev)
  case (Call c n e)
  with nocall show ?thesis by blast
next
  case (MintDone q outcome)
  show ?thesis
  proof (cases "q = p")
    case True
    with run MintDone p inv show ?thesis
      by (auto simp: mint_done_def Let_def split: promise_state.splits mint_outcome.splits)
  next
    case False
    with run MintDone p inv show ?thesis
      by (auto simp: mint_done_def Let_def split: promise_state.splits mint_outcome.splits if_splits)
  qed
next
  case (Resume c)
  consider "c = c1" | "c = c2" | "c \<noteq> c1" "c \<noteq> c2" by blast
  then show ?thesis
  proof cases
    case 1
    with run Resume p ne inv show ?thesis
      by (auto simp: resume_def split: promise_state.splits option.splits caller_state.splits if_splits)
  next
    case 2
    with run Resume p ne inv show ?thesis
      by (auto simp: resume_def split: promise_state.splits option.splits caller_state.splits if_splits)
  next
    case 3
    with run Resume p ne inv show ?thesis
      by (auto simp: resume_def split: promise_state.splits option.splits caller_state.splits if_splits)
  qed
qed


lemma exec_keeps_flight:
  assumes nocall: "\<forall>ev\<in>set rest. \<forall>c n e. ev \<noteq> Call c n e"
    and run: "exec rest t = Some t'"
    and p: "p < length (promises t)"
    and ne: "c1 \<noteq> c2"
    and inv: "case promises t ! p of
        Pending n cfg \<Rightarrow> callers t c1 = Some (Awaiting p o1) \<and> callers t c2 = Some (Awaiting p o2)
      | Fulfilled tok \<Rightarrow>
          (callers t c1 = Some (Awaiting p o1) \<or> callers t c1 = Some (Returned tok))
          \<and> (callers t c2 = Some (Awaiting p o2) \<or> callers t c2 = Some (Returned tok))
      | Rejected err \<Rightarrow>
          (callers t c1 = Some (Awaiting p o1) \<or> callers t c1 = Some (Threw err))
          \<and> (callers t c2 = Some (Awaiting p o2) \<or> callers t c2 = Some (Threw err))"
  shows "mintCalls t' = mintCalls t \<and> length (promises t') = length (promises t)
       \<and> (case promises t' ! p of
        Pending n cfg \<Rightarrow> callers t' c1 = Some (Awaiting p o1) \<and> callers t' c2 = Some (Awaiting p o2)
      | Fulfilled tok \<Rightarrow>
          (callers t' c1 = Some (Awaiting p o1) \<or> callers t' c1 = Some (Returned tok))
          \<and> (callers t' c2 = Some (Awaiting p o2) \<or> callers t' c2 = Some (Returned tok))
      | Rejected err \<Rightarrow>
          (callers t' c1 = Some (Awaiting p o1) \<or> callers t' c1 = Some (Threw err))
          \<and> (callers t' c2 = Some (Awaiting p o2) \<or> callers t' c2 = Some (Threw err)))"
  using nocall run p inv
proof (induction rest arbitrary: t)
  case Nil
  then have eq: "t' = t" by simp
  from Nil.prems(4) show ?case unfolding eq by simp
next
  case (Cons ev rest)
  from Cons.prems(2) obtain t1 where t1: "step ev t = Some t1" and rest: "exec rest t1 = Some t'"
    by (auto split: option.splits)
  have nc: "\<forall>c n e. ev \<noteq> Call c n e" using Cons.prems(1) by simp
  note k = step_keeps_flight[OF nc t1 Cons.prems(3) ne Cons.prems(4)]
  have p1: "p < length (promises t1)" using k Cons.prems(3) by simp
  have nr: "\<forall>ev\<in>set rest. \<forall>c n e. ev \<noteq> Call c n e" using Cons.prems(1) by simp
  from Cons.IH[OF nr rest p1] k show ?case by simp
qed

lemma flight_finished_same:
  assumes "case promises t ! p of
        Pending n cfg \<Rightarrow> callers t c1 = Some (Awaiting p o1) \<and> callers t c2 = Some (Awaiting p o2)
      | Fulfilled tok \<Rightarrow>
          (callers t c1 = Some (Awaiting p o1) \<or> callers t c1 = Some (Returned tok))
          \<and> (callers t c2 = Some (Awaiting p o2) \<or> callers t c2 = Some (Returned tok))
      | Rejected err \<Rightarrow>
          (callers t c1 = Some (Awaiting p o1) \<or> callers t c1 = Some (Threw err))
          \<and> (callers t c2 = Some (Awaiting p o2) \<or> callers t c2 = Some (Threw err))"
    and "\<forall>q ow. callers t c1 \<noteq> Some (Awaiting q ow)" "\<forall>q ow. callers t c2 \<noteq> Some (Awaiting q ow)"
  shows "callers t c1 = callers t c2 \<and> callers t c1 \<noteq> None"
  using assms by (auto split: promise_state.splits)


lemma exec_append:
  "exec (xs @ ys) s = (case exec xs s of None \<Rightarrow> None | Some t \<Rightarrow> exec ys t)"
  by (induction xs arbitrary: s) (auto split: option.splits)

text \<open>
  Claim C1, amended. Two callers invoke \<open>getToken\<close> one after the other while no valid
  credential is cached, and nobody else calls \<open>getToken\<close> before both have their result.
  From an idle provider the first call creates the one promise and the second call joins
  it: \<open>generateDeveloperToken\<close> is called exactly once when the signing configuration
  resolves and not at all when it does not, and whichever caller resumes first, both
  receive the same result: the identical token string when the mint succeeds, the error
  of the mint when it throws, the configuration error when the configuration is missing.
  Whatever else settles or resumes meanwhile, every such run ends with that count of
  calls, and once both callers have finished they have the same result. When a mint is
  already in flight both calls join it: no promise is created, \<open>generateDeveloperToken\<close>
  is not called again, and once both callers have finished they have the same result.
\<close>

theorem getToken_single_flight:
  assumes fresh: "callers s c1 = None" "callers s c2 = None" "c1 \<noteq> c2"
    and stale: "\<not> cache_valid s now1" "\<not> cache_valid s now2"
  shows "(inFlight s = None \<longrightarrow>
           (\<forall>config tok e rs. resolve_config s env1 = Inr config
                \<and> (rs = [Resume c1, Resume c2] \<or> rs = [Resume c2, Resume c1]) \<longrightarrow>
              (\<exists>s'. exec ([Call c1 now1 env1, Call c2 now2 env2,
                            MintDone (length (promises s)) (Minted tok e)] @ rs) s = Some s'
                 \<and> mintCalls s' = mintCalls s + 1
                 \<and> length (promises s') = length (promises s) + 1
                 \<and> callers s' c1 = Some (Returned tok) \<and> callers s' c2 = Some (Returned tok)))
         \<and> (\<forall>config err rs. resolve_config s env1 = Inr config
                \<and> (rs = [Resume c1, Resume c2] \<or> rs = [Resume c2, Resume c1]) \<longrightarrow>
              (\<exists>s'. exec ([Call c1 now1 env1, Call c2 now2 env2,
                            MintDone (length (promises s)) (MintThrows err)] @ rs) s = Some s'
                 \<and> mintCalls s' = mintCalls s + 1
                 \<and> length (promises s') = length (promises s) + 1
                 \<and> callers s' c1 = Some (Threw err) \<and> callers s' c2 = Some (Threw err)))
         \<and> (\<forall>err rs. resolve_config s env1 = Inl err
                \<and> (rs = [Resume c1, Resume c2] \<or> rs = [Resume c2, Resume c1]) \<longrightarrow>
              (\<exists>s'. exec ([Call c1 now1 env1, Call c2 now2 env2] @ rs) s = Some s'
                 \<and> mintCalls s' = mintCalls s
                 \<and> length (promises s') = length (promises s) + 1
                 \<and> callers s' c1 = Some (Threw err) \<and> callers s' c2 = Some (Threw err)))
         \<and> (\<forall>rest s'. (\<forall>ev\<in>set rest. \<forall>c n e. ev \<noteq> Call c n e)
                \<and> exec (Call c1 now1 env1 # Call c2 now2 env2 # rest) s = Some s' \<longrightarrow>
              mintCalls s' = mintCalls s + (case resolve_config s env1 of Inl err \<Rightarrow> 0 | Inr config \<Rightarrow> 1)
              \<and> length (promises s') = length (promises s) + 1
              \<and> ((\<forall>q ow. callers s' c1 \<noteq> Some (Awaiting q ow))
                    \<and> (\<forall>q ow. callers s' c2 \<noteq> Some (Awaiting q ow)) \<longrightarrow>
                  callers s' c1 = callers s' c2 \<and> callers s' c1 \<noteq> None)))
       \<and> (\<forall>p. inFlight s = Some p \<longrightarrow>
             exec [Call c1 now1 env1, Call c2 now2 env2] s
               = Some (s\<lparr> callers := (callers s)(c1 \<mapsto> Awaiting p False, c2 \<mapsto> Awaiting p False) \<rparr>)
           \<and> (\<forall>rest s'. p < length (promises s)
                  \<and> (\<forall>ev\<in>set rest. \<forall>c n e. ev \<noteq> Call c n e)
                  \<and> exec (Call c1 now1 env1 # Call c2 now2 env2 # rest) s = Some s' \<longrightarrow>
                mintCalls s' = mintCalls s
                \<and> length (promises s') = length (promises s)
                \<and> ((\<forall>q ow. callers s' c1 \<noteq> Some (Awaiting q ow))
                      \<and> (\<forall>q ow. callers s' c2 \<noteq> Some (Awaiting q ow)) \<longrightarrow>
                    callers s' c1 = callers s' c2 \<and> callers s' c1 \<noteq> None)))"
proof -
  let ?p = "length (promises s)"
  have minted: "\<forall>config tok e rs. resolve_config s env1 = Inr config
                \<and> (rs = [Resume c1, Resume c2] \<or> rs = [Resume c2, Resume c1]) \<longrightarrow>
              (\<exists>s'. exec ([Call c1 now1 env1, Call c2 now2 env2,
                            MintDone (length (promises s)) (Minted tok e)] @ rs) s = Some s'
                 \<and> mintCalls s' = mintCalls s + 1
                 \<and> length (promises s') = length (promises s) + 1
                 \<and> callers s' c1 = Some (Returned tok) \<and> callers s' c2 = Some (Returned tok))"
    if idle: "inFlight s = None"
  proof (intro allI impI, elim conjE disjE)
    fix config tok e rs
    assume "resolve_config s env1 = Inr config" "rs = [Resume c1, Resume c2]"
    then show "\<exists>s'. exec ([Call c1 now1 env1, Call c2 now2 env2,
                            MintDone (length (promises s)) (Minted tok e)] @ rs) s = Some s'
                 \<and> mintCalls s' = mintCalls s + 1
                 \<and> length (promises s') = length (promises s) + 1
                 \<and> callers s' c1 = Some (Returned tok) \<and> callers s' c2 = Some (Returned tok)"
      using idle fresh stale
      by (simp add: call_fresh call_join mint_done_def resume_def Let_def nth_append)
  next
    fix config tok e rs
    assume "resolve_config s env1 = Inr config" "rs = [Resume c2, Resume c1]"
    then show "\<exists>s'. exec ([Call c1 now1 env1, Call c2 now2 env2,
                            MintDone (length (promises s)) (Minted tok e)] @ rs) s = Some s'
                 \<and> mintCalls s' = mintCalls s + 1
                 \<and> length (promises s') = length (promises s) + 1
                 \<and> callers s' c1 = Some (Returned tok) \<and> callers s' c2 = Some (Returned tok)"
      using idle fresh stale
      by (simp add: call_fresh call_join mint_done_def resume_def Let_def nth_append)
  qed
  have thrown: "\<forall>config err rs. resolve_config s env1 = Inr config
                \<and> (rs = [Resume c1, Resume c2] \<or> rs = [Resume c2, Resume c1]) \<longrightarrow>
              (\<exists>s'. exec ([Call c1 now1 env1, Call c2 now2 env2,
                            MintDone (length (promises s)) (MintThrows err)] @ rs) s = Some s'
                 \<and> mintCalls s' = mintCalls s + 1
                 \<and> length (promises s') = length (promises s) + 1
                 \<and> callers s' c1 = Some (Threw err) \<and> callers s' c2 = Some (Threw err))"
    if idle: "inFlight s = None"
  proof (intro allI impI, elim conjE disjE)
    fix config err rs
    assume "resolve_config s env1 = Inr config" "rs = [Resume c1, Resume c2]"
    then show "\<exists>s'. exec ([Call c1 now1 env1, Call c2 now2 env2,
                            MintDone (length (promises s)) (MintThrows err)] @ rs) s = Some s'
                 \<and> mintCalls s' = mintCalls s + 1
                 \<and> length (promises s') = length (promises s) + 1
                 \<and> callers s' c1 = Some (Threw err) \<and> callers s' c2 = Some (Threw err)"
      using idle fresh stale
      by (simp add: call_fresh call_join mint_done_def resume_def Let_def nth_append)
  next
    fix config err rs
    assume "resolve_config s env1 = Inr config" "rs = [Resume c2, Resume c1]"
    then show "\<exists>s'. exec ([Call c1 now1 env1, Call c2 now2 env2,
                            MintDone (length (promises s)) (MintThrows err)] @ rs) s = Some s'
                 \<and> mintCalls s' = mintCalls s + 1
                 \<and> length (promises s') = length (promises s) + 1
                 \<and> callers s' c1 = Some (Threw err) \<and> callers s' c2 = Some (Threw err)"
      using idle fresh stale
      by (simp add: call_fresh call_join mint_done_def resume_def Let_def nth_append)
  qed
  have noconfig: "\<forall>err rs. resolve_config s env1 = Inl err
                \<and> (rs = [Resume c1, Resume c2] \<or> rs = [Resume c2, Resume c1]) \<longrightarrow>
              (\<exists>s'. exec ([Call c1 now1 env1, Call c2 now2 env2] @ rs) s = Some s'
                 \<and> mintCalls s' = mintCalls s
                 \<and> length (promises s') = length (promises s) + 1
                 \<and> callers s' c1 = Some (Threw err) \<and> callers s' c2 = Some (Threw err))"
    if idle: "inFlight s = None"
  proof (intro allI impI, elim conjE disjE)
    fix err rs
    assume "resolve_config s env1 = Inl err" "rs = [Resume c1, Resume c2]"
    then show "\<exists>s'. exec ([Call c1 now1 env1, Call c2 now2 env2] @ rs) s = Some s'
                 \<and> mintCalls s' = mintCalls s
                 \<and> length (promises s') = length (promises s) + 1
                 \<and> callers s' c1 = Some (Threw err) \<and> callers s' c2 = Some (Threw err)"
      using idle fresh stale
      by (simp add: call_fresh call_join resume_def Let_def nth_append)
  next
    fix err rs
    assume "resolve_config s env1 = Inl err" "rs = [Resume c2, Resume c1]"
    then show "\<exists>s'. exec ([Call c1 now1 env1, Call c2 now2 env2] @ rs) s = Some s'
                 \<and> mintCalls s' = mintCalls s
                 \<and> length (promises s') = length (promises s) + 1
                 \<and> callers s' c1 = Some (Threw err) \<and> callers s' c2 = Some (Threw err)"
      using idle fresh stale
      by (simp add: call_fresh call_join resume_def Let_def nth_append)
  qed
  have general: "\<forall>rest s'. (\<forall>ev\<in>set rest. \<forall>c n e. ev \<noteq> Call c n e)
                \<and> exec (Call c1 now1 env1 # Call c2 now2 env2 # rest) s = Some s' \<longrightarrow>
              mintCalls s' = mintCalls s + (case resolve_config s env1 of Inl err \<Rightarrow> 0 | Inr config \<Rightarrow> 1)
              \<and> length (promises s') = length (promises s) + 1
              \<and> ((\<forall>q ow. callers s' c1 \<noteq> Some (Awaiting q ow))
                    \<and> (\<forall>q ow. callers s' c2 \<noteq> Some (Awaiting q ow)) \<longrightarrow>
                  callers s' c1 = callers s' c2 \<and> callers s' c1 \<noteq> None)"
    if idle: "inFlight s = None"
  proof (intro allI impI, elim conjE)
    fix rest s'
    assume nocall: "\<forall>ev\<in>set rest. \<forall>c n e. ev \<noteq> Call c n e"
      and run: "exec (Call c1 now1 env1 # Call c2 now2 env2 # rest) s = Some s'"
    define pr where "pr = (case resolve_config s env1 of Inl err \<Rightarrow> Rejected err
                            | Inr config \<Rightarrow> Pending now1 config)"
    define t where "t = s\<lparr> promises := promises s @ [pr],
        mintCalls := mintCalls s + (case resolve_config s env1 of Inl err \<Rightarrow> 0 | Inr config \<Rightarrow> 1),
        inFlight := Some ?p,
        callers := (callers s)(c1 \<mapsto> Awaiting ?p True, c2 \<mapsto> Awaiting ?p False) \<rparr>"
    have two: "exec [Call c1 now1 env1, Call c2 now2 env2] s = Some t"
      using idle fresh stale
      by (cases "resolve_config s env1")
         (simp_all add: call_fresh call_join t_def pr_def)
    have "exec ([Call c1 now1 env1, Call c2 now2 env2] @ rest) s = exec rest t"
      by (simp only: exec_append two option.case)
    then have "exec (Call c1 now1 env1 # Call c2 now2 env2 # rest) s = exec rest t"
      by (simp only: append_Cons append_Nil)
    with run have rest: "exec rest t = Some s'" by simp
    have pt: "?p < length (promises t)" by (simp add: t_def)
    have inv: "case promises t ! ?p of
        Pending n cfg \<Rightarrow> callers t c1 = Some (Awaiting ?p True) \<and> callers t c2 = Some (Awaiting ?p False)
      | Fulfilled tok \<Rightarrow>
          (callers t c1 = Some (Awaiting ?p True) \<or> callers t c1 = Some (Returned tok))
          \<and> (callers t c2 = Some (Awaiting ?p False) \<or> callers t c2 = Some (Returned tok))
      | Rejected err \<Rightarrow>
          (callers t c1 = Some (Awaiting ?p True) \<or> callers t c1 = Some (Threw err))
          \<and> (callers t c2 = Some (Awaiting ?p False) \<or> callers t c2 = Some (Threw err))"
      using fresh(3) by (simp add: t_def split: promise_state.splits)
    note k = exec_keeps_flight[OF nocall rest pt fresh(3) inv]
    have m: "mintCalls s' = mintCalls s + (case resolve_config s env1 of Inl err \<Rightarrow> 0 | Inr config \<Rightarrow> 1)"
      using k[THEN conjunct1] by (simp add: t_def)
    have l: "length (promises s') = length (promises s) + 1"
      using k[THEN conjunct2, THEN conjunct1] by (simp add: t_def)
    have f: "(\<forall>q ow. callers s' c1 \<noteq> Some (Awaiting q ow))
                    \<and> (\<forall>q ow. callers s' c2 \<noteq> Some (Awaiting q ow)) \<longrightarrow>
                  callers s' c1 = callers s' c2 \<and> callers s' c1 \<noteq> None"
    proof (intro impI, elim conjE)
      assume a: "\<forall>q ow. callers s' c1 \<noteq> Some (Awaiting q ow)" "\<forall>q ow. callers s' c2 \<noteq> Some (Awaiting q ow)"
      show "callers s' c1 = callers s' c2 \<and> callers s' c1 \<noteq> None"
        by (rule flight_finished_same[OF k[THEN conjunct2, THEN conjunct2] a])
    qed
    from m l f
    show "mintCalls s' = mintCalls s + (case resolve_config s env1 of Inl err \<Rightarrow> 0 | Inr config \<Rightarrow> 1)
              \<and> length (promises s') = length (promises s) + 1
              \<and> ((\<forall>q ow. callers s' c1 \<noteq> Some (Awaiting q ow))
                    \<and> (\<forall>q ow. callers s' c2 \<noteq> Some (Awaiting q ow)) \<longrightarrow>
                  callers s' c1 = callers s' c2 \<and> callers s' c1 \<noteq> None)"
      by (intro conjI)
  qed
  have join: "exec [Call c1 now1 env1, Call c2 now2 env2] s
               = Some (s\<lparr> callers := (callers s)(c1 \<mapsto> Awaiting p False, c2 \<mapsto> Awaiting p False) \<rparr>)"
    if "inFlight s = Some p" for p
    using that fresh stale by (simp add: call_join)
  have joined: "\<forall>rest s'. p < length (promises s)
                  \<and> (\<forall>ev\<in>set rest. \<forall>c n e. ev \<noteq> Call c n e)
                  \<and> exec (Call c1 now1 env1 # Call c2 now2 env2 # rest) s = Some s' \<longrightarrow>
                mintCalls s' = mintCalls s
                \<and> length (promises s') = length (promises s)
                \<and> ((\<forall>q ow. callers s' c1 \<noteq> Some (Awaiting q ow))
                      \<and> (\<forall>q ow. callers s' c2 \<noteq> Some (Awaiting q ow)) \<longrightarrow>
                    callers s' c1 = callers s' c2 \<and> callers s' c1 \<noteq> None)"
    if busy: "inFlight s = Some p" for p
  proof (intro allI impI, elim conjE)
    fix rest s'
    assume p: "p < length (promises s)"
      and nocall: "\<forall>ev\<in>set rest. \<forall>c n e. ev \<noteq> Call c n e"
      and run: "exec (Call c1 now1 env1 # Call c2 now2 env2 # rest) s = Some s'"
    define t where "t = s\<lparr> callers := (callers s)(c1 \<mapsto> Awaiting p False, c2 \<mapsto> Awaiting p False) \<rparr>"
    have two: "exec [Call c1 now1 env1, Call c2 now2 env2] s = Some t"
      unfolding t_def by (rule join[OF busy])
    have "exec ([Call c1 now1 env1, Call c2 now2 env2] @ rest) s = exec rest t"
      by (simp only: exec_append two option.case)
    then have "exec (Call c1 now1 env1 # Call c2 now2 env2 # rest) s = exec rest t"
      by (simp only: append_Cons append_Nil)
    with run have rest: "exec rest t = Some s'" by simp
    have pt: "p < length (promises t)" using p by (simp add: t_def)
    have inv: "case promises t ! p of
        Pending n cfg \<Rightarrow> callers t c1 = Some (Awaiting p False) \<and> callers t c2 = Some (Awaiting p False)
      | Fulfilled tok \<Rightarrow>
          (callers t c1 = Some (Awaiting p False) \<or> callers t c1 = Some (Returned tok))
          \<and> (callers t c2 = Some (Awaiting p False) \<or> callers t c2 = Some (Returned tok))
      | Rejected err \<Rightarrow>
          (callers t c1 = Some (Awaiting p False) \<or> callers t c1 = Some (Threw err))
          \<and> (callers t c2 = Some (Awaiting p False) \<or> callers t c2 = Some (Threw err))"
      using fresh(3) by (simp add: t_def split: promise_state.splits)
    note k = exec_keeps_flight[OF nocall rest pt fresh(3) inv]
    have m: "mintCalls s' = mintCalls s"
      using k[THEN conjunct1] by (simp add: t_def)
    have l: "length (promises s') = length (promises s)"
      using k[THEN conjunct2, THEN conjunct1] by (simp add: t_def)
    have f: "(\<forall>q ow. callers s' c1 \<noteq> Some (Awaiting q ow))
                    \<and> (\<forall>q ow. callers s' c2 \<noteq> Some (Awaiting q ow)) \<longrightarrow>
                  callers s' c1 = callers s' c2 \<and> callers s' c1 \<noteq> None"
    proof (intro impI, elim conjE)
      assume a: "\<forall>q ow. callers s' c1 \<noteq> Some (Awaiting q ow)" "\<forall>q ow. callers s' c2 \<noteq> Some (Awaiting q ow)"
      show "callers s' c1 = callers s' c2 \<and> callers s' c1 \<noteq> None"
        by (rule flight_finished_same[OF k[THEN conjunct2, THEN conjunct2] a])
    qed
    from m l f
    show "mintCalls s' = mintCalls s
                \<and> length (promises s') = length (promises s)
                \<and> ((\<forall>q ow. callers s' c1 \<noteq> Some (Awaiting q ow))
                      \<and> (\<forall>q ow. callers s' c2 \<noteq> Some (Awaiting q ow)) \<longrightarrow>
                    callers s' c1 = callers s' c2 \<and> callers s' c1 \<noteq> None)"
      by (intro conjI)
  qed
  show ?thesis
    apply (rule conjI)
     apply (rule impI)
     apply (rule conjI, rule minted, assumption)
     apply (rule conjI, rule thrown, assumption)
     apply (rule conjI, rule noconfig, assumption)
     apply (rule general, assumption)
    apply (rule allI, rule impI)
    apply (rule conjI, rule join, assumption)
    apply (rule joined, assumption)
    done
qed


theorem getToken_single_flight_witness:
  "(\<exists>s'. exec [Call 1 1000 \<lparr> APPLE_MUSIC_TEAM_ID = None, APPLE_MUSIC_KEY_ID = None,
                     APPLE_MUSIC_PRIVATE_KEY = None, APPLE_MUSIC_DEV_TOKEN_TTL_SECONDS = None \<rparr>,
                Call 2 1001 \<lparr> APPLE_MUSIC_TEAM_ID = None, APPLE_MUSIC_KEY_ID = None,
                     APPLE_MUSIC_PRIVATE_KEY = None, APPLE_MUSIC_DEV_TOKEN_TTL_SECONDS = None \<rparr>,
                MintDone 0 (Minted ''jwt'' (Some (Fin 87400))), Resume 2, Resume 1]
            (createDeveloperTokenProvider (Some \<lparr> teamId = ''T1'', keyId = ''K1'',
                 privateKey = ''PEM'', tokenTTLSeconds = None \<rparr>)) = Some s'
          \<and> mintCalls s' = 1 \<and> callers s' 1 = Some (Returned ''jwt'')
          \<and> callers s' 2 = Some (Returned ''jwt''))
   \<and> (\<exists>s'. exec [Call 1 1000 \<lparr> APPLE_MUSIC_TEAM_ID = None, APPLE_MUSIC_KEY_ID = None,
                     APPLE_MUSIC_PRIVATE_KEY = None, APPLE_MUSIC_DEV_TOKEN_TTL_SECONDS = None \<rparr>,
                Call 2 1001 \<lparr> APPLE_MUSIC_TEAM_ID = None, APPLE_MUSIC_KEY_ID = None,
                     APPLE_MUSIC_PRIVATE_KEY = None, APPLE_MUSIC_DEV_TOKEN_TTL_SECONDS = None \<rparr>,
                MintDone 0 (MintThrows (Error ''bad key'')), Resume 1, Resume 2]
            (createDeveloperTokenProvider (Some \<lparr> teamId = ''T1'', keyId = ''K1'',
                 privateKey = ''PEM'', tokenTTLSeconds = None \<rparr>)) = Some s'
          \<and> mintCalls s' = 1 \<and> callers s' 1 = Some (Threw (Error ''bad key''))
          \<and> callers s' 2 = Some (Threw (Error ''bad key'')))"
proof -
  let ?env = "\<lparr> APPLE_MUSIC_TEAM_ID = None, APPLE_MUSIC_KEY_ID = None,
                 APPLE_MUSIC_PRIVATE_KEY = None, APPLE_MUSIC_DEV_TOKEN_TTL_SECONDS = None \<rparr>"
  let ?cfg = "\<lparr> teamId = ''T1'', keyId = ''K1'', privateKey = ''PEM'', tokenTTLSeconds = None \<rparr>"
  let ?P = "createDeveloperTokenProvider (Some ?cfg)"
  have h: "callers ?P 1 = None" "callers ?P 2 = None" "(1::nat) \<noteq> 2"
    "\<not> cache_valid ?P 1000" "\<not> cache_valid ?P 1001"
    by (simp_all add: createDeveloperTokenProvider_def cache_valid_def)
  have idle: "inFlight ?P = None" by (simp add: createDeveloperTokenProvider_def)
  have cfg: "resolve_config ?P ?env = Inr ?cfg"
    by (simp add: createDeveloperTokenProvider_def resolve_config_def)
  have p: "length (promises ?P) = 0" "mintCalls ?P = 0"
    by (simp_all add: createDeveloperTokenProvider_def)
  note T = getToken_single_flight[OF h, where ?env1.0 = ?env and ?env2.0 = ?env]
  from T idle cfg
  have a: "\<exists>s'. exec ([Call 1 1000 ?env, Call 2 1001 ?env,
                      MintDone (length (promises ?P)) (Minted ''jwt'' (Some (Fin 87400)))]
                      @ [Resume 2, Resume 1]) ?P = Some s'
            \<and> mintCalls s' = mintCalls ?P + 1
            \<and> length (promises s') = length (promises ?P) + 1
            \<and> callers s' 1 = Some (Returned ''jwt'') \<and> callers s' 2 = Some (Returned ''jwt'')"
    by blast
  from T idle cfg
  have b: "\<exists>s'. exec ([Call 1 1000 ?env, Call 2 1001 ?env,
                      MintDone (length (promises ?P)) (MintThrows (Error ''bad key''))]
                      @ [Resume 1, Resume 2]) ?P = Some s'
            \<and> mintCalls s' = mintCalls ?P + 1
            \<and> length (promises s') = length (promises ?P) + 1
            \<and> callers s' 1 = Some (Threw (Error ''bad key''))
            \<and> callers s' 2 = Some (Threw (Error ''bad key''))"
    by blast
  from a b show ?thesis unfolding p by auto
qed

text \<open>
  Claim C1 as stated fails in two runs. Without a signing configuration (no
  \<open>initialConfig\<close>, an empty environment) two concurrent calls with nothing cached make
  no call to \<open>generateDeveloperToken\<close> at all, and both callers get the error of
  \<open>getDeveloperConfigFromEnv\<close> instead of a token. And with a token lifetime of 120
  seconds, which is never more than 300 seconds ahead, a second call that arrives after
  the first mint has settled and before the first caller has resumed finds no valid
  credential and no mint in flight, so it mints again: \<open>generateDeveloperToken\<close> is
  called twice and the two callers receive different tokens.
\<close>

theorem getToken_concurrent_calls_not_one_mint:
  "(\<exists>s'. exec [Call 1 1000 \<lparr> APPLE_MUSIC_TEAM_ID = None, APPLE_MUSIC_KEY_ID = None,
                     APPLE_MUSIC_PRIVATE_KEY = None, APPLE_MUSIC_DEV_TOKEN_TTL_SECONDS = None \<rparr>,
                Call 2 1000 \<lparr> APPLE_MUSIC_TEAM_ID = None, APPLE_MUSIC_KEY_ID = None,
                     APPLE_MUSIC_PRIVATE_KEY = None, APPLE_MUSIC_DEV_TOKEN_TTL_SECONDS = None \<rparr>,
                Resume 1, Resume 2]
            (createDeveloperTokenProvider None) = Some s'
          \<and> mintCalls s' = 0
          \<and> callers s' 1 = Some (Threw (Error ''Missing Apple Music credentials. Set APPLE_MUSIC_TEAM_ID, APPLE_MUSIC_KEY_ID, APPLE_MUSIC_PRIVATE_KEY in env.''))
          \<and> callers s' 2 = Some (Threw (Error ''Missing Apple Music credentials. Set APPLE_MUSIC_TEAM_ID, APPLE_MUSIC_KEY_ID, APPLE_MUSIC_PRIVATE_KEY in env.'')))
   \<and> (\<exists>s'. exec [Call 1 1000 \<lparr> APPLE_MUSIC_TEAM_ID = None, APPLE_MUSIC_KEY_ID = None,
                     APPLE_MUSIC_PRIVATE_KEY = None, APPLE_MUSIC_DEV_TOKEN_TTL_SECONDS = None \<rparr>,
                MintDone 0 (Minted ''jwt1'' (Some (Fin 1120))),
                Call 2 1000 \<lparr> APPLE_MUSIC_TEAM_ID = None, APPLE_MUSIC_KEY_ID = None,
                     APPLE_MUSIC_PRIVATE_KEY = None, APPLE_MUSIC_DEV_TOKEN_TTL_SECONDS = None \<rparr>,
                MintDone 1 (Minted ''jwt2'' (Some (Fin 1120))),
                Resume 1, Resume 2]
            (createDeveloperTokenProvider (Some \<lparr> teamId = ''T1'', keyId = ''K1'',
                 privateKey = ''PEM'', tokenTTLSeconds = Some (Fin 120) \<rparr>)) = Some s'
          \<and> mintCalls s' = 2
          \<and> callers s' 1 = Some (Returned ''jwt1'')
          \<and> callers s' 2 = Some (Returned ''jwt2''))"
  by (simp add: createDeveloperTokenProvider_def getToken_call_def cache_valid_def
        resolve_config_def getDeveloperConfigFromEnv_def opt_truthy_def mint_done_def
        resume_def Let_def js_gt_def js_sub_def)

text \<open>
  Claim C3, amended. A call returns the cached token, and touches neither the minter nor
  anything else of the provider, exactly when a credential is cached whose expiry is more
  than 300 seconds after the call's time. Otherwise (expiry at most 300 seconds ahead,
  NaN, or nothing cached) the cached token is not returned: when no mint is in flight the
  call starts one, which calls \<open>generateDeveloperToken\<close> if the signing configuration
  resolves and is rejected at once if it does not; when a mint is in flight the call
  awaits that one and starts nothing.
\<close>

theorem getToken_cache_margin:
  assumes fresh: "callers s c = None"
  shows "(cache_valid s now \<longleftrightarrow>
            (\<exists>ct. cached s = Some ct
               \<and> js_gt (expiresAtEpoch ct) (Fin (real_of_int now + 300))))
       \<and> (cache_valid s now \<longrightarrow>
            (\<exists>ct. cached s = Some ct
               \<and> step (Call c now env) s =
                   Some (s\<lparr> callers := (callers s)(c \<mapsto> Returned (token ct)) \<rparr>)))
       \<and> (\<not> cache_valid s now \<and> inFlight s = None \<longrightarrow>
            (\<exists>s'. step (Call c now env) s = Some s'
               \<and> cached s' = cached s
               \<and> inFlight s' = Some (length (promises s))
               \<and> length (promises s') = length (promises s) + 1
               \<and> callers s' c = Some (Awaiting (length (promises s)) True)
               \<and> (case resolve_config s env of
                     Inr config \<Rightarrow> mintCalls s' = mintCalls s + 1
                       \<and> promises s' ! length (promises s) = Pending now config
                   | Inl err \<Rightarrow> mintCalls s' = mintCalls s
                       \<and> promises s' ! length (promises s) = Rejected err)))
       \<and> (\<forall>p. \<not> cache_valid s now \<and> inFlight s = Some p \<longrightarrow>
            step (Call c now env) s =
              Some (s\<lparr> callers := (callers s)(c \<mapsto> Awaiting p False) \<rparr>))"
proof -
  have valid: "\<exists>ct. cached s = Some ct
       \<and> step (Call c now env) s = Some (s\<lparr> callers := (callers s)(c \<mapsto> Returned (token ct)) \<rparr>)"
    if v: "cache_valid s now"
  proof -
    from v obtain ct where "cached s = Some ct" by (auto simp: cache_valid_iff)
    then show ?thesis using call_cached[OF fresh v] by simp
  qed
  have start: "\<exists>s'. step (Call c now env) s = Some s'
               \<and> cached s' = cached s
               \<and> inFlight s' = Some (length (promises s))
               \<and> length (promises s') = length (promises s) + 1
               \<and> callers s' c = Some (Awaiting (length (promises s)) True)
               \<and> (case resolve_config s env of
                     Inr config \<Rightarrow> mintCalls s' = mintCalls s + 1
                       \<and> promises s' ! length (promises s) = Pending now config
                   | Inl err \<Rightarrow> mintCalls s' = mintCalls s
                       \<and> promises s' ! length (promises s) = Rejected err)"
    if "\<not> cache_valid s now" "inFlight s = None"
    using call_fresh[OF fresh that] by (cases "resolve_config s env") simp_all
  have join: "step (Call c now env) s = Some (s\<lparr> callers := (callers s)(c \<mapsto> Awaiting p False) \<rparr>)"
    if "\<not> cache_valid s now" "inFlight s = Some p" for p
    using call_join[OF fresh that] by simp
  show ?thesis using cache_valid_iff[of s now] valid start join by blast
qed

theorem getToken_cache_margin_witness:
  "step (Call 1 1000 \<lparr> APPLE_MUSIC_TEAM_ID = None, APPLE_MUSIC_KEY_ID = None,
       APPLE_MUSIC_PRIVATE_KEY = None, APPLE_MUSIC_DEV_TOKEN_TTL_SECONDS = None \<rparr>)
      ((createDeveloperTokenProvider (Some \<lparr> teamId = ''T1'', keyId = ''K1'', privateKey = ''PEM'', tokenTTLSeconds = None \<rparr>))
         \<lparr> cached := Some \<lparr> token = ''jwt'', expiresAtEpoch = Fin 5000 \<rparr> \<rparr>)
     = Some ((createDeveloperTokenProvider (Some \<lparr> teamId = ''T1'', keyId = ''K1'', privateKey = ''PEM'', tokenTTLSeconds = None \<rparr>))
         \<lparr> cached := Some \<lparr> token = ''jwt'', expiresAtEpoch = Fin 5000 \<rparr>,
           callers := [1 \<mapsto> Returned ''jwt''] \<rparr>)
   \<and> (\<exists>s'. step (Call 1 4700 \<lparr> APPLE_MUSIC_TEAM_ID = None, APPLE_MUSIC_KEY_ID = None,
       APPLE_MUSIC_PRIVATE_KEY = None, APPLE_MUSIC_DEV_TOKEN_TTL_SECONDS = None \<rparr>)
              ((createDeveloperTokenProvider (Some \<lparr> teamId = ''T1'', keyId = ''K1'', privateKey = ''PEM'', tokenTTLSeconds = None \<rparr>))
                 \<lparr> cached := Some \<lparr> token = ''jwt'', expiresAtEpoch = Fin 5000 \<rparr> \<rparr>) = Some s'
          \<and> inFlight s' = Some 0 \<and> mintCalls s' = 1 \<and> promises s' ! 0 = Pending 4700 \<lparr> teamId = ''T1'', keyId = ''K1'', privateKey = ''PEM'', tokenTTLSeconds = None \<rparr>)
   \<and> step (Call 2 4701 \<lparr> APPLE_MUSIC_TEAM_ID = None, APPLE_MUSIC_KEY_ID = None,
       APPLE_MUSIC_PRIVATE_KEY = None, APPLE_MUSIC_DEV_TOKEN_TTL_SECONDS = None \<rparr>)
        ((createDeveloperTokenProvider (Some \<lparr> teamId = ''T1'', keyId = ''K1'', privateKey = ''PEM'', tokenTTLSeconds = None \<rparr>))
           \<lparr> inFlight := Some 0, promises := [Pending 4700 \<lparr> teamId = ''T1'', keyId = ''K1'', privateKey = ''PEM'', tokenTTLSeconds = None \<rparr>],
             callers := [1 \<mapsto> Awaiting 0 True], mintCalls := 1 \<rparr>)
     = Some ((createDeveloperTokenProvider (Some \<lparr> teamId = ''T1'', keyId = ''K1'', privateKey = ''PEM'', tokenTTLSeconds = None \<rparr>))
           \<lparr> inFlight := Some 0, promises := [Pending 4700 \<lparr> teamId = ''T1'', keyId = ''K1'', privateKey = ''PEM'', tokenTTLSeconds = None \<rparr>],
             callers := [1 \<mapsto> Awaiting 0 True, 2 \<mapsto> Awaiting 0 False], mintCalls := 1 \<rparr>)"
proof -
  let ?env = "\<lparr> APPLE_MUSIC_TEAM_ID = None, APPLE_MUSIC_KEY_ID = None,
       APPLE_MUSIC_PRIVATE_KEY = None, APPLE_MUSIC_DEV_TOKEN_TTL_SECONDS = None \<rparr>"
  let ?V = "(createDeveloperTokenProvider (Some \<lparr> teamId = ''T1'', keyId = ''K1'', privateKey = ''PEM'', tokenTTLSeconds = None \<rparr>))
         \<lparr> cached := Some \<lparr> token = ''jwt'', expiresAtEpoch = Fin 5000 \<rparr> \<rparr>"
  let ?F = "(createDeveloperTokenProvider (Some \<lparr> teamId = ''T1'', keyId = ''K1'', privateKey = ''PEM'', tokenTTLSeconds = None \<rparr>))
           \<lparr> inFlight := Some 0, promises := [Pending 4700 \<lparr> teamId = ''T1'', keyId = ''K1'', privateKey = ''PEM'', tokenTTLSeconds = None \<rparr>],
             callers := [1 \<mapsto> Awaiting 0 True], mintCalls := 1 \<rparr>"
  have v: "callers ?V 1 = None" "cache_valid ?V 1000" "\<not> cache_valid ?V 4700"
    "inFlight ?V = None" "resolve_config ?V ?env = Inr \<lparr> teamId = ''T1'', keyId = ''K1'', privateKey = ''PEM'', tokenTTLSeconds = None \<rparr>"
    "length (promises ?V) = 0" "mintCalls ?V = 0"
    "cached ?V = Some \<lparr> token = ''jwt'', expiresAtEpoch = Fin 5000 \<rparr>"
    by (simp_all add: createDeveloperTokenProvider_def cache_valid_def resolve_config_def
          js_gt_def js_sub_def)
  have f: "callers ?F 2 = None" "\<not> cache_valid ?F 4701" "inFlight ?F = Some 0"
    by (simp_all add: createDeveloperTokenProvider_def cache_valid_def)
  have a: "step (Call 1 1000 ?env) ?V =
      Some (?V\<lparr> callers := (callers ?V)(1 \<mapsto> Returned ''jwt'') \<rparr>)"
    using getToken_cache_margin[OF v(1), of 1000 ?env] v(2,8) by auto
  have b: "\<exists>s'. step (Call 1 4700 ?env) ?V = Some s'
          \<and> inFlight s' = Some 0 \<and> mintCalls s' = 1 \<and> promises s' ! 0 = Pending 4700 \<lparr> teamId = ''T1'', keyId = ''K1'', privateKey = ''PEM'', tokenTTLSeconds = None \<rparr>"
    using getToken_cache_margin[OF v(1), of 4700 ?env] v(3,4,5,6,7) by auto
  have c: "step (Call 2 4701 ?env) ?F = Some (?F\<lparr> callers := (callers ?F)(2 \<mapsto> Awaiting 0 False) \<rparr>)"
    using getToken_cache_margin[OF f(1), of 4701 ?env] f(2,3) by auto
  show ?thesis
    using a b c by (simp add: createDeveloperTokenProvider_def)
qed

text \<open>
  Claim C3 as stated says that every call that finds no valid credential performs a new
  mint. The second of two concurrent calls does not: the provider created with a
  configuration is called at time 1000 and, while that mint is pending, at time 1001; no
  credential is cached at either time, \<open>generateDeveloperToken\<close> has been called once
  after the first call and still once after the second, and the second caller waits for
  the first caller's promise.
\<close>

theorem getToken_joins_in_flight_mint:
  "exec [Call 1 1000 \<lparr> APPLE_MUSIC_TEAM_ID = None, APPLE_MUSIC_KEY_ID = None,
       APPLE_MUSIC_PRIVATE_KEY = None, APPLE_MUSIC_DEV_TOKEN_TTL_SECONDS = None \<rparr>, Call 2 1001 \<lparr> APPLE_MUSIC_TEAM_ID = None, APPLE_MUSIC_KEY_ID = None,
       APPLE_MUSIC_PRIVATE_KEY = None, APPLE_MUSIC_DEV_TOKEN_TTL_SECONDS = None \<rparr>] (createDeveloperTokenProvider (Some \<lparr> teamId = ''T1'', keyId = ''K1'', privateKey = ''PEM'', tokenTTLSeconds = None \<rparr>))
     = Some \<lparr> initialConfig = Some \<lparr> teamId = ''T1'', keyId = ''K1'', privateKey = ''PEM'', tokenTTLSeconds = None \<rparr>, cached = None, inFlight = Some 0,
              promises = [Pending 1000 \<lparr> teamId = ''T1'', keyId = ''K1'', privateKey = ''PEM'', tokenTTLSeconds = None \<rparr>],
              callers = [1 \<mapsto> Awaiting 0 True, 2 \<mapsto> Awaiting 0 False],
              mintCalls = 1 \<rparr>
   \<and> exec [Call 1 1000 \<lparr> APPLE_MUSIC_TEAM_ID = None, APPLE_MUSIC_KEY_ID = None,
       APPLE_MUSIC_PRIVATE_KEY = None, APPLE_MUSIC_DEV_TOKEN_TTL_SECONDS = None \<rparr>] (createDeveloperTokenProvider (Some \<lparr> teamId = ''T1'', keyId = ''K1'', privateKey = ''PEM'', tokenTTLSeconds = None \<rparr>))
     = Some \<lparr> initialConfig = Some \<lparr> teamId = ''T1'', keyId = ''K1'', privateKey = ''PEM'', tokenTTLSeconds = None \<rparr>, cached = None, inFlight = Some 0,
              promises = [Pending 1000 \<lparr> teamId = ''T1'', keyId = ''K1'', privateKey = ''PEM'', tokenTTLSeconds = None \<rparr>],
              callers = [1 \<mapsto> Awaiting 0 True],
              mintCalls = 1 \<rparr>"
  by (simp add: createDeveloperTokenProvider_def getToken_call_def cache_valid_def
        resolve_config_def Let_def)

text \<open>
  Claim C4. A call starts a mint and the mint fails, either because the configuration is
  missing or because \<open>generateDeveloperToken\<close> (or decoding its token) throws. The
  caller receives that error, the cached credential is what it was before the call, and
  \<open>inFlight\<close> is empty when the caller has resumed, so the next call, at that time or
  later, is not handed the failed promise: it creates a new one, and calls
  \<open>generateDeveloperToken\<close> again when its configuration resolves.
\<close>
theorem getToken_failed_mint_cleanup:
  assumes idle: "inFlight s = None"
    and fresh: "callers s c = None" "callers s c' = None" "c \<noteq> c'"
    and stale: "\<not> cache_valid s now"
    and later: "now \<le> now'"
    and failed: "(resolve_config s env = Inl err \<and> es = [Call c now env, Resume c])
               \<or> (\<exists>config. resolve_config s env = Inr config
                     \<and> es = [Call c now env, MintDone (length (promises s)) (MintThrows err), Resume c])"
  shows "\<exists>s1. exec es s = Some s1
           \<and> callers s1 c = Some (Threw err)
           \<and> cached s1 = cached s
           \<and> inFlight s1 = None
           \<and> (\<exists>s2. step (Call c' now' env') s1 = Some s2
                 \<and> inFlight s2 = Some (length (promises s) + 1)
                 \<and> callers s2 c' = Some (Awaiting (length (promises s) + 1) True)
                 \<and> (case resolve_config s env' of
                       Inr config' \<Rightarrow> mintCalls s2 = mintCalls s1 + 1
                         \<and> promises s2 ! (length (promises s) + 1) = Pending now' config'
                     | Inl err' \<Rightarrow> mintCalls s2 = mintCalls s1
                         \<and> promises s2 ! (length (promises s) + 1) = Rejected err'))"
proof -
  have stale': "\<not> cache_valid s now'"
    using stale later cache_valid_earlier by blast
  from failed show ?thesis
  proof (elim disjE conjE exE)
  assume r: "resolve_config s env = Inl err" and es: "es = [Call c now env, Resume c]"
  let ?s1 = "s\<lparr> promises := promises s @ [Rejected err], inFlight := None,
                callers := (callers s)(c \<mapsto> Threw err) \<rparr>"
  have e: "exec es s = Some ?s1"
    using idle fresh stale r es by (simp add: call_fresh resume_def nth_append)
  have n: "callers ?s1 c' = None" "\<not> cache_valid ?s1 now'" "inFlight ?s1 = None"
    using fresh stale' by (simp_all add: cache_valid_def)
  show ?thesis
    using e call_fresh[OF n, of env']
    by (cases "resolve_config s env'") (simp_all add: resolve_config_def nth_append)
next
  fix config
  assume r: "resolve_config s env = Inr config"
    and es: "es = [Call c now env, MintDone (length (promises s)) (MintThrows err), Resume c]"
  let ?s1 = "s\<lparr> promises := promises s @ [Rejected err], mintCalls := mintCalls s + 1,
                inFlight := None, callers := (callers s)(c \<mapsto> Threw err) \<rparr>"
  have e: "exec es s = Some ?s1"
    using idle fresh stale r es by (simp add: call_fresh mint_done_def resume_def nth_append)
  have n: "callers ?s1 c' = None" "\<not> cache_valid ?s1 now'" "inFlight ?s1 = None"
    using fresh stale' by (simp_all add: cache_valid_def)
  show ?thesis
    using e call_fresh[OF n, of env']
    by (cases "resolve_config s env'") (simp_all add: resolve_config_def nth_append)
  qed
qed

theorem getToken_failed_mint_cleanup_witness:
  "\<exists>s1. exec [Call 1 1000 \<lparr> APPLE_MUSIC_TEAM_ID = None, APPLE_MUSIC_KEY_ID = None,
       APPLE_MUSIC_PRIVATE_KEY = None, APPLE_MUSIC_DEV_TOKEN_TTL_SECONDS = None \<rparr>, MintDone 0 (MintThrows (Error ''bad key'')), Resume 1]
            (createDeveloperTokenProvider (Some \<lparr> teamId = ''T1'', keyId = ''K1'', privateKey = ''PEM'', tokenTTLSeconds = None \<rparr>)) = Some s1
        \<and> callers s1 1 = Some (Threw (Error ''bad key''))
        \<and> cached s1 = None
        \<and> inFlight s1 = None
        \<and> (\<exists>s2. step (Call 2 1005 \<lparr> APPLE_MUSIC_TEAM_ID = None, APPLE_MUSIC_KEY_ID = None,
       APPLE_MUSIC_PRIVATE_KEY = None, APPLE_MUSIC_DEV_TOKEN_TTL_SECONDS = None \<rparr>) s1 = Some s2
              \<and> inFlight s2 = Some 1
              \<and> callers s2 2 = Some (Awaiting 1 True)
              \<and> mintCalls s2 = mintCalls s1 + 1
              \<and> promises s2 ! 1 = Pending 1005 \<lparr> teamId = ''T1'', keyId = ''K1'', privateKey = ''PEM'', tokenTTLSeconds = None \<rparr>)"
proof -
  let ?env = "\<lparr> APPLE_MUSIC_TEAM_ID = None, APPLE_MUSIC_KEY_ID = None,
       APPLE_MUSIC_PRIVATE_KEY = None, APPLE_MUSIC_DEV_TOKEN_TTL_SECONDS = None \<rparr>"
  let ?P = "createDeveloperTokenProvider (Some \<lparr> teamId = ''T1'', keyId = ''K1'', privateKey = ''PEM'', tokenTTLSeconds = None \<rparr>)"
  have h: "inFlight ?P = None" "callers ?P 1 = None" "callers ?P 2 = None" "(1::nat) \<noteq> 2"
    "\<not> cache_valid ?P 1000" "(1000::int) \<le> 1005"
    by (simp_all add: createDeveloperTokenProvider_def cache_valid_def)
  have r: "resolve_config ?P ?env = Inr \<lparr> teamId = ''T1'', keyId = ''K1'', privateKey = ''PEM'', tokenTTLSeconds = None \<rparr>"
    by (simp add: createDeveloperTokenProvider_def resolve_config_def)
  have p: "length (promises ?P) = 0" "cached ?P = None"
    by (simp_all add: createDeveloperTokenProvider_def)
  have d: "(resolve_config ?P ?env = Inl (Error ''bad key'')
              \<and> [Call 1 1000 ?env, MintDone 0 (MintThrows (Error ''bad key'')), Resume 1]
                  = [Call 1 1000 ?env, Resume 1])
         \<or> (\<exists>config. resolve_config ?P ?env = Inr config
              \<and> [Call 1 1000 ?env, MintDone 0 (MintThrows (Error ''bad key'')), Resume 1]
                  = [Call 1 1000 ?env, MintDone (length (promises ?P)) (MintThrows (Error ''bad key'')),
                     Resume 1])"
    using r p by simp
  from getToken_failed_mint_cleanup[OF h d, of ?env]
  show ?thesis unfolding p r by simp
qed

section \<open>The stored user tokens and the OAuth handlers\<close>

lemma sp_get_set_same: "sp_get (sp_set k v ps) k = Some v"
  by (induction ps) (auto simp: sp_get_def)

lemma map_of_filter_other:
  "k' \<noteq> k \<Longrightarrow> map_of (filter (\<lambda>q. fst q \<noteq> k) ps) k' = map_of ps k'"
  by (induction ps) auto

lemma sp_get_set_other: "k' \<noteq> k \<Longrightarrow> sp_get (sp_set k v ps) k' = sp_get ps k'"
  by (induction ps) (auto simp: sp_get_def map_of_filter_other)

lemma storeUserToken_pending [simp]:
  "pendingStates (storeUserToken s t ttl now st) = pendingStates st"
  by (simp add: storeUserToken_def Let_def)

subsection \<open>Rounding\<close>

lemma round_half_even_int [simp]: "round_half_even (of_int n) = n"
  by (simp add: round_half_even_def)

lemma round_half_even_up:
  assumes "real_of_int f + 1 / 2 < x" "x < real_of_int f + 1"
  shows "round_half_even x = f + 1"
proof -
  have fl: "\<lfloor>x\<rfloor> = f" using assms by (intro floor_unique) simp_all
  show ?thesis using assms by (simp add: round_half_even_def fl Let_def)
qed

lemma binade_eqI:
  assumes "2 powr real_of_int k \<le> \<bar>x\<bar>" "\<bar>x\<bar> < 2 powr (real_of_int k + 1)"
  shows "binade x = k"
proof -
  have "0 < 2 powr real_of_int k" by simp
  with assms(1) have "0 < \<bar>x\<bar>" by linarith
  then show ?thesis
    unfolding binade_def using assms by (subst floor_log_eq_powr_iff) auto
qed

lemma binade_int_range:
  assumes "m \<noteq> 0" "\<bar>m\<bar> < 2 ^ 53"
  shows "0 \<le> binade (real_of_int m)" "binade (real_of_int m) \<le> 52"
proof -
  have pos: "1 \<le> \<bar>real_of_int m\<bar>" using assms(1) by (simp add: abs_if)
  have "0 \<le> log 2 \<bar>real_of_int m\<bar>" using pos by simp
  then show "0 \<le> binade (real_of_int m)" by (simp add: binade_def)
  have "\<bar>real_of_int m\<bar> < 2 ^ 53" using assms(2)
    by (metis of_int_abs of_int_less_numeral_power_cancel_iff)
  moreover have "(2::real) powr 53 = 2 ^ 53" by (rule powr_numeral) simp
  ultimately have "\<bar>real_of_int m\<bar> < 2 powr 53" by (simp del: power_numeral)
  then have "log 2 \<bar>real_of_int m\<bar> < 53"
    using pos by (subst log_less_iff) (simp_all del: power_numeral powr_numeral)
  then show "binade (real_of_int m) \<le> 52" by (simp add: binade_def floor_le_iff)
qed

text \<open>
  A number in the binade of \<open>2 ^ k\<close> is rounded on the grid of step \<open>2 ^ (k - 52)\<close>.
\<close>

lemma round64_eqI:
  fixes k :: nat
  assumes lo: "2 ^ k \<le> \<bar>x\<bar>" and hi: "\<bar>x\<bar> < 2 ^ Suc k" and k: "k \<le> 52"
    and n: "round_half_even (x * 2 ^ (52 - k)) = n"
    and small: "\<bar>real_of_int n\<bar> < 2 ^ 1024"
  shows "round64 x = Fin (real_of_int n / 2 ^ (52 - k))"
proof -
  have "0 < (2::real) ^ k" by simp
  with lo have "0 < \<bar>x\<bar>" by linarith
  then have nz: "x \<noteq> 0" by simp
  have p1: "2 powr real_of_int (int k) = (2::real) ^ k" by (simp add: powr_realpow)
  have p2: "2 powr (real_of_int (int k) + 1) = (2::real) ^ Suc k"
    by (simp add: powr_add powr_realpow)
  have b: "binade x = int k"
    by (rule binade_eqI) (use lo hi in \<open>simp_all only: p1 p2\<close>)
  have mx: "max (int k) (- 1022) = int k" by simp
  have u: "2 powr (real_of_int (int k) - 52) = 1 / 2 ^ (52 - k)"
  proof -
    have "real_of_int (int k) - 52 = - real (52 - k)" using k by simp
    then have "2 powr (real_of_int (int k) - 52) = 2 powr (- real (52 - k))" by (rule arg_cong)
    also have "\<dots> = inverse (2 powr real (52 - k))" by (rule powr_minus)
    also have "2 powr real (52 - k) = (2::real) ^ (52 - k)" by (rule powr_realpow) simp
    finally show ?thesis by (simp only: inverse_eq_divide)
  qed
  have q: "x / (1 / 2 ^ (52 - k)) = x * 2 ^ (52 - k)" by simp
  have y: "real_of_int (round_half_even (x / (1 / 2 ^ (52 - k)))) * (1 / 2 ^ (52 - k))
             = real_of_int n / 2 ^ (52 - k)"
    unfolding q n by simp
  have "\<bar>real_of_int n / 2 ^ (52 - k)\<bar> = \<bar>real_of_int n\<bar> / 2 ^ (52 - k)"
    by (simp add: abs_divide)
  also have "\<dots> \<le> \<bar>real_of_int n\<bar> / 1"
    by (rule divide_left_mono) simp_all
  also have "\<dots> = \<bar>real_of_int n\<bar>" by simp
  also have "\<dots> < 2 ^ 1024" by (rule small)
  also have "(2::real) ^ 1024 = 2 powr 1024" by (simp add: powr_numeral del: power_numeral)
  finally have ok: "\<not> 2 powr 1024 \<le> \<bar>real_of_int n / 2 ^ (52 - k)\<bar>"
    by (simp del: power_numeral powr_numeral)
  have "round64 x =
      (let u = 2 powr (real_of_int (max (binade x) (- 1022)) - 52);
           y = real_of_int (round_half_even (x / u)) * u
       in if 2 powr 1024 \<le> \<bar>y\<bar> then (if 0 < x then PosInf else NegInf) else Fin y)"
    unfolding round64_def using nz by (rule if_not_P)
  also have "\<dots> = (if 2 powr 1024 \<le> \<bar>real_of_int n / 2 ^ (52 - k)\<bar>
                     then (if 0 < x then PosInf else NegInf)
                     else Fin (real_of_int n / 2 ^ (52 - k)))"
    unfolding Let_def b mx u y ..
  also have "\<dots> = Fin (real_of_int n / 2 ^ (52 - k))" using ok by (rule if_not_P)
  finally show ?thesis .
qed

text \<open>Integers below \<open>2 ^ 53\<close> in absolute value are numbers of the format.\<close>

lemma round64_int:
  assumes "\<bar>m\<bar> < 2 ^ 53"
  shows "round64 (real_of_int m) = Fin (real_of_int m)"
proof (cases "m = 0")
  case True
  then show ?thesis by (simp add: round64_def)
next
  case False
  define e where "e = binade (real_of_int m)"
  have e: "0 \<le> e" "e \<le> 52" using binade_int_range[OF False assms] by (simp_all add: e_def)
  define k where "k = nat (52 - e)"
  have mx: "max e (- 1022) = e" using e by simp
  have u: "2 powr (real_of_int e - 52) = 1 / 2 ^ k"
  proof -
    have "real_of_int e - 52 = - real k" using e by (simp add: k_def)
    then have "2 powr (real_of_int e - 52) = 2 powr (- real k)" by (rule arg_cong)
    also have "\<dots> = inverse (2 powr real k)" by (rule powr_minus)
    also have "2 powr real k = (2::real) ^ k" by (rule powr_realpow) simp
    finally show ?thesis by (simp only: inverse_eq_divide)
  qed
  have q: "real_of_int m / (1 / 2 ^ k) = real_of_int (m * 2 ^ k)" by simp
  have y: "real_of_int (round_half_even (real_of_int m / (1 / 2 ^ k))) * (1 / 2 ^ k) = real_of_int m"
    unfolding q round_half_even_int by simp
  have "\<bar>real_of_int m\<bar> < 2 ^ 53" using assms
    by (metis of_int_abs of_int_less_numeral_power_cancel_iff)
  also have "(2::real) ^ 53 \<le> 2 ^ 1024" by (rule power_increasing) simp_all
  also have "(2::real) ^ 1024 = 2 powr 1024" by (simp add: powr_numeral del: power_numeral)
  finally have small: "\<not> 2 powr 1024 \<le> \<bar>real_of_int m\<bar>" by (simp del: power_numeral powr_numeral)
  have nz: "real_of_int m \<noteq> 0" using False by simp
  have "round64 (real_of_int m) =
      (let u = 2 powr (real_of_int (max (binade (real_of_int m)) (- 1022)) - 52);
           y = real_of_int (round_half_even (real_of_int m / u)) * u
       in if 2 powr 1024 \<le> \<bar>y\<bar> then (if 0 < real_of_int m then PosInf else NegInf) else Fin y)"
    unfolding round64_def using nz by (rule if_not_P)
  also have "\<dots> = (if 2 powr 1024 \<le> \<bar>real_of_int m\<bar>
                     then (if 0 < real_of_int m then PosInf else NegInf) else Fin (real_of_int m))"
    unfolding Let_def e_def[symmetric] mx u y ..
  also have "\<dots> = Fin (real_of_int m)" using small by (rule if_not_P)
  finally show ?thesis .
qed

lemma num_mul_int:
  assumes "\<bar>k\<bar> * 1000 < 2 ^ 52"
  shows "num_mul (Fin (real_of_int k)) (Fin 1000) = Fin (real_of_int (k * 1000))"
proof -
  have "\<bar>k * 1000\<bar> < 2 ^ 53" using assms by (simp add: abs_mult)
  from round64_int[OF this] show ?thesis by simp
qed

lemma num_add_int:
  assumes "\<bar>a\<bar> < 2 ^ 52" "\<bar>b\<bar> < 2 ^ 52"
  shows "num_add (Fin (real_of_int a)) (Fin (real_of_int b)) = Fin (real_of_int (a + b))"
proof -
  have "\<bar>a + b\<bar> < 2 ^ 53" using assms by simp
  from round64_int[OF this] show ?thesis by simp
qed

lemma store_expiry_int:
  assumes "\<bar>now\<bar> < 2 ^ 52" "\<bar>k\<bar> * 1000 < 2 ^ 52"
  shows "num_add (Fin (real_of_int now)) (num_mul (Fin (real_of_int k)) (Fin 1000))
           = Fin (real_of_int (now + k * 1000))"
proof -
  have "\<bar>k * 1000\<bar> < 2 ^ 52" using assms(2) by (simp add: abs_mult)
  then show ?thesis
    unfolding num_mul_int[OF assms(2)] using assms(1) by (rule num_add_int[rotated])
qed

text \<open>\<open>Number.parseInt(" 120s", 10)\<close> is 120.\<close>

lemma parseInt10_digits:
  "parseInt10 '' 120s'' = Fin 120"
proof -
  have r: "round64 (real_of_int 120) = Fin (real_of_int 120)"
    by (rule round64_int) simp
  have "parseInt10 '' 120s'' = round64 (real (120::nat))"
    by (simp add: parseInt10_def is_js_space_def is_digit_def digit_val_def Let_def)
  with r show ?thesis by simp
qed

text \<open>
  Where the exact sum is no number of the format the stored expiry is the rounded one. The
  lifetime \<open>1 - 2 ^ -24\<close> seconds, stored at time 1800000000000: the product
  \<open>999.99994...\<close> is exact, the sum is rounded on a grid of step \<open>2 ^ -12\<close> to
  1800000001000, and a lookup at that instant still returns the token.
\<close>

lemma num_mul_rounding_example:
  "num_mul (Fin (16777215 / 16777216)) (Fin 1000) = Fin (2097151875 / 2097152)"
proof -
  have n: "round_half_even (16777215 / 16777216 * 1000 * 2 ^ (52 - 9)) = 8796092497920000"
  proof -
    have "(16777215 / 16777216 * 1000 * 2 ^ (52 - 9) :: real) = real_of_int 8796092497920000"
      by simp
    then show ?thesis by (simp only: round_half_even_int)
  qed
  have "round64 (16777215 / 16777216 * 1000) = Fin (real_of_int 8796092497920000 / 2 ^ (52 - 9))"
    by (rule round64_eqI[OF _ _ _ n]) simp_all
  then show ?thesis by simp
qed

lemma num_add_rounding_example:
  "num_add (Fin 1800000000000) (Fin (2097151875 / 2097152)) = Fin 1800000001000"
proof -
  have n: "round_half_even ((1800000000000 + 2097151875 / 2097152) * 2 ^ (52 - 40))
             = 7372800004095999 + 1"
    by (rule round_half_even_up) simp_all
  have "round64 (1800000000000 + 2097151875 / 2097152)
          = Fin (real_of_int (7372800004095999 + 1) / 2 ^ (52 - 40))"
    by (rule round64_eqI[OF _ _ _ n]) simp_all
  then show ?thesis by simp
qed

lemma storeUserToken_rounds_expiry:
  "storeUserToken ''s1'' ''tok'' (Some (Fin (16777215 / 16777216))) 1800000000000
       \<lparr> pendingStates = Map.empty, userTokens = Map.empty \<rparr>
     = \<lparr> pendingStates = Map.empty,
         userTokens = [''s1'' \<mapsto> \<lparr> userToken = ''tok'', userExpiresAt = Some (Fin 1800000001000) \<rparr>] \<rparr>
   \<and> fst (getStoredUserToken (Some ''s1'') 1800000001000
        (storeUserToken ''s1'' ''tok'' (Some (Fin (16777215 / 16777216))) 1800000000000
           \<lparr> pendingStates = Map.empty, userTokens = Map.empty \<rparr>)) = Some ''tok''"
proof -
  have e: "num_add (Fin (real_of_int 1800000000000)) (num_mul (Fin (16777215 / 16777216)) (Fin 1000))
             = Fin 1800000001000"
    unfolding num_mul_rounding_example using num_add_rounding_example by simp
  have t: "js_truthy (Fin (16777215 / 16777216))" by (simp add: js_truthy_def)
  have st: "storeUserToken ''s1'' ''tok'' (Some (Fin (16777215 / 16777216))) 1800000000000
       \<lparr> pendingStates = Map.empty, userTokens = Map.empty \<rparr>
     = \<lparr> pendingStates = Map.empty,
         userTokens = [''s1'' \<mapsto> \<lparr> userToken = ''tok'', userExpiresAt = Some (Fin 1800000001000) \<rparr>] \<rparr>"
    unfolding storeUserToken_def Let_def option.case if_P[OF t] e by simp
  show ?thesis
    unfolding st
    by (simp add: getStoredUserToken_def opt_truthy_def str_truthy_def js_truthy_def)
qed

subsection \<open>The store of user tokens\<close>

text \<open>
  Claim C7, amended. For a non-empty session id, \<open>storeUserToken\<close> replaces whatever
  record the session id had by the token and an expiry. The expiry is absent when no
  lifetime is given or the lifetime is 0 or NaN; otherwise it is
  \<open>Date.now() + expiresIn * 1000\<close> as double arithmetic computes it, which for a whole
  number of seconds is exactly \<open>now + ttl * 1000\<close> milliseconds (both \<open>now\<close> and
  \<open>ttl * 1000\<close> below \<open>2 ^ 52\<close> in absolute value). \<open>getStoredUserToken\<close> returns the
  token and leaves the store as it is while the record's expiry is absent, is 0 or NaN, or
  is not before the current time; once the expiry, a number other than 0, is before the
  current time it returns nothing and deletes the record, and a second lookup returns
  nothing again. A lookup of the empty session id returns nothing.
\<close>

theorem user_token_store_put_get:
  assumes s: "s \<noteq> []"
  shows "(\<exists>e. storeUserToken s t ttl now st =
              st\<lparr> userTokens := (userTokens st)(s \<mapsto> \<lparr> userToken = t, userExpiresAt = e \<rparr>) \<rparr>
            \<and> (ttl = None \<or> ttl = Some NaN \<or> ttl = Some (Fin 0) \<longrightarrow> e = None)
            \<and> (\<forall>n. ttl = Some n \<and> n \<noteq> NaN \<and> n \<noteq> Fin 0 \<longrightarrow>
                  e = Some (num_add (Fin (real_of_int now)) (num_mul n (Fin 1000))))
            \<and> (\<forall>k. ttl = Some (Fin (real_of_int k)) \<and> k \<noteq> 0
                    \<and> \<bar>now\<bar> < 2 ^ 52 \<and> \<bar>k\<bar> * 1000 < 2 ^ 52 \<longrightarrow>
                  e = Some (Fin (real_of_int (now + k * 1000)))))
       \<and> (\<forall>e. userTokens st s = Some \<lparr> userToken = t, userExpiresAt = e \<rparr>
              \<and> (e = None \<or> e = Some NaN \<or> e = Some (Fin 0) \<or> e = Some PosInf
                   \<or> (\<exists>x. e = Some (Fin x) \<and> real_of_int now' \<le> x))
            \<longrightarrow> getStoredUserToken (Some s) now' st = (Some t, st))
       \<and> (\<forall>e. userTokens st s = Some \<lparr> userToken = t, userExpiresAt = e \<rparr>
              \<and> (e = Some NegInf \<or> (\<exists>x. e = Some (Fin x) \<and> x < real_of_int now' \<and> x \<noteq> 0))
            \<longrightarrow> getStoredUserToken (Some s) now' st
                  = (None, st\<lparr> userTokens := (userTokens st)(s := None) \<rparr>)
                \<and> getStoredUserToken (Some s) now'' (st\<lparr> userTokens := (userTokens st)(s := None) \<rparr>)
                  = (None, st\<lparr> userTokens := (userTokens st)(s := None) \<rparr>))
       \<and> getStoredUserToken (Some []) now' st = (None, st)"
proof -
  have put: "\<exists>e. storeUserToken s t ttl now st =
              st\<lparr> userTokens := (userTokens st)(s \<mapsto> \<lparr> userToken = t, userExpiresAt = e \<rparr>) \<rparr>
            \<and> (ttl = None \<or> ttl = Some NaN \<or> ttl = Some (Fin 0) \<longrightarrow> e = None)
            \<and> (\<forall>n. ttl = Some n \<and> n \<noteq> NaN \<and> n \<noteq> Fin 0 \<longrightarrow>
                  e = Some (num_add (Fin (real_of_int now)) (num_mul n (Fin 1000))))
            \<and> (\<forall>k. ttl = Some (Fin (real_of_int k)) \<and> k \<noteq> 0
                    \<and> \<bar>now\<bar> < 2 ^ 52 \<and> \<bar>k\<bar> * 1000 < 2 ^ 52 \<longrightarrow>
                  e = Some (Fin (real_of_int (now + k * 1000))))"
  proof -
    define e where "e = (case ttl of None \<Rightarrow> None
                         | Some n \<Rightarrow> if js_truthy n
                             then Some (num_add (Fin (real_of_int now)) (num_mul n (Fin 1000)))
                             else None)"
    have a: "storeUserToken s t ttl now st =
              st\<lparr> userTokens := (userTokens st)(s \<mapsto> \<lparr> userToken = t, userExpiresAt = e \<rparr>) \<rparr>"
      by (simp add: storeUserToken_def Let_def e_def)
    have b: "ttl = None \<or> ttl = Some NaN \<or> ttl = Some (Fin 0) \<longrightarrow> e = None"
      by (auto simp: e_def js_truthy_def)
    have c: "\<forall>n. ttl = Some n \<and> n \<noteq> NaN \<and> n \<noteq> Fin 0 \<longrightarrow>
                  e = Some (num_add (Fin (real_of_int now)) (num_mul n (Fin 1000)))"
      by (simp add: e_def js_truthy_def)
    have d: "e = Some (Fin (real_of_int (now + k * 1000)))"
      if "ttl = Some (Fin (real_of_int k))" "k \<noteq> 0" "\<bar>now\<bar> < 2 ^ 52" "\<bar>k\<bar> * 1000 < 2 ^ 52" for k
    proof -
      have "e = Some (num_add (Fin (real_of_int now)) (num_mul (Fin (real_of_int k)) (Fin 1000)))"
        using that(1,2) by (simp add: e_def js_truthy_def)
      then show ?thesis unfolding store_expiry_int[OF that(3,4)] .
    qed
    from a b c d show ?thesis by blast
  qed
  have get: "getStoredUserToken (Some s) now' st = (Some t, st)"
    if "userTokens st s = Some \<lparr> userToken = t, userExpiresAt = e \<rparr>"
       "e = None \<or> e = Some NaN \<or> e = Some (Fin 0) \<or> e = Some PosInf
          \<or> (\<exists>x. e = Some (Fin x) \<and> real_of_int now' \<le> x)" for e
    using that s
    by (auto simp: getStoredUserToken_def opt_truthy_def str_truthy_def js_truthy_def)
  have gone: "getStoredUserToken (Some s) now' st
              = (None, st\<lparr> userTokens := (userTokens st)(s := None) \<rparr>)
            \<and> getStoredUserToken (Some s) now'' (st\<lparr> userTokens := (userTokens st)(s := None) \<rparr>)
              = (None, st\<lparr> userTokens := (userTokens st)(s := None) \<rparr>)"
    if "userTokens st s = Some \<lparr> userToken = t, userExpiresAt = e \<rparr>"
       "e = Some NegInf \<or> (\<exists>x. e = Some (Fin x) \<and> x < real_of_int now' \<and> x \<noteq> 0)" for e
    using that s
    by (auto simp: getStoredUserToken_def opt_truthy_def str_truthy_def js_truthy_def)
  have empty: "getStoredUserToken (Some []) now' st = (None, st)"
    by (simp add: getStoredUserToken_def opt_truthy_def str_truthy_def)
  show ?thesis using put get gone empty by blast
qed

theorem user_token_store_put_get_witness:
  "storeUserToken ''s1'' ''tok'' (Some (Fin 1)) 1000
       \<lparr> pendingStates = Map.empty, userTokens = [''s1'' \<mapsto> \<lparr> userToken = ''old'', userExpiresAt = None \<rparr>] \<rparr>
     = \<lparr> pendingStates = Map.empty,
         userTokens = [''s1'' \<mapsto> \<lparr> userToken = ''tok'', userExpiresAt = Some (Fin 2000) \<rparr>] \<rparr>
   \<and> getStoredUserToken (Some ''s1'') 2000
       \<lparr> pendingStates = Map.empty,
         userTokens = [''s1'' \<mapsto> \<lparr> userToken = ''tok'', userExpiresAt = Some (Fin 2000) \<rparr>] \<rparr>
     = (Some ''tok'',
        \<lparr> pendingStates = Map.empty,
          userTokens = [''s1'' \<mapsto> \<lparr> userToken = ''tok'', userExpiresAt = Some (Fin 2000) \<rparr>] \<rparr>)
   \<and> getStoredUserToken (Some ''s1'') 2001
       \<lparr> pendingStates = Map.empty,
         userTokens = [''s1'' \<mapsto> \<lparr> userToken = ''tok'', userExpiresAt = Some (Fin 2000) \<rparr>] \<rparr>
     = (None, \<lparr> pendingStates = Map.empty, userTokens = Map.empty \<rparr>)
   \<and> getStoredUserToken (Some ''s1'') 2002 \<lparr> pendingStates = Map.empty, userTokens = Map.empty \<rparr>
     = (None, \<lparr> pendingStates = Map.empty, userTokens = Map.empty \<rparr>)"
proof -
  let ?st0 = "\<lparr> pendingStates = Map.empty,
                userTokens = [''s1'' \<mapsto> \<lparr> userToken = ''old'', userExpiresAt = None \<rparr>] \<rparr>"
  let ?st1 = "\<lparr> pendingStates = Map.empty,
                userTokens = [''s1'' \<mapsto> \<lparr> userToken = ''tok'', userExpiresAt = Some (Fin 2000) \<rparr>] \<rparr>"
  have h: "''s1'' \<noteq> []" by simp
  have k: "Some (Fin 1) = Some (Fin (real_of_int 1)) \<and> (1::int) \<noteq> 0
             \<and> \<bar>1000::int\<bar> < 2 ^ 52 \<and> \<bar>1::int\<bar> * 1000 < 2 ^ 52"
    by simp
  from user_token_store_put_get[OF h, where t = "''tok''" and ttl = "Some (Fin 1)"
      and now = 1000 and st = ?st0] k
  obtain e where e: "storeUserToken ''s1'' ''tok'' (Some (Fin 1)) 1000 ?st0 =
      ?st0\<lparr> userTokens := (userTokens ?st0)(''s1'' \<mapsto> \<lparr> userToken = ''tok'', userExpiresAt = e \<rparr>) \<rparr>"
    and "e = Some (Fin (real_of_int (1000 + 1 * 1000)))"
    by blast
  then have put: "storeUserToken ''s1'' ''tok'' (Some (Fin 1)) 1000 ?st0 = ?st1"
    by simp
  have rec: "userTokens ?st1 ''s1'' = Some \<lparr> userToken = ''tok'', userExpiresAt = Some (Fin 2000) \<rparr>"
    by simp
  have live: "Some (Fin 2000) = Some (Fin 2000) \<and> real_of_int 2000 \<le> 2000" by simp
  have dead: "Some (Fin 2000) = Some (Fin 2000) \<and> (2000::real) < real_of_int 2001 \<and> (2000::real) \<noteq> 0"
    by simp
  from user_token_store_put_get[OF h, where t = "''tok''" and st = ?st1 and now' = 2000] rec live
  have get: "getStoredUserToken (Some ''s1'') 2000 ?st1 = (Some ''tok'', ?st1)"
    by blast
  from user_token_store_put_get[OF h, where t = "''tok''" and st = ?st1 and now' = 2001
      and now'' = 2002] rec dead
  have gone: "getStoredUserToken (Some ''s1'') 2001 ?st1
                = (None, ?st1\<lparr> userTokens := (userTokens ?st1)(''s1'' := None) \<rparr>)
              \<and> getStoredUserToken (Some ''s1'') 2002 (?st1\<lparr> userTokens := (userTokens ?st1)(''s1'' := None) \<rparr>)
                = (None, ?st1\<lparr> userTokens := (userTokens ?st1)(''s1'' := None) \<rparr>)"
    by blast
  have del: "?st1\<lparr> userTokens := (userTokens ?st1)(''s1'' := None) \<rparr>
               = \<lparr> pendingStates = Map.empty, userTokens = Map.empty \<rparr>"
    by simp
  from put get gone show ?thesis unfolding del by blast
qed

text \<open>
  Claim C7 as stated fails at two inputs. A lifetime of 0 is given, and the record gets
  no expiry at all instead of the expiry \<open>now + 0\<close>, so it is still returned long after.
  And a record stored under the empty session id is present with no expiry, yet a lookup
  of the empty session id returns nothing.
\<close>

theorem user_token_store_zero_ttl_and_empty_session:
  "userExpiresAt (the (userTokens
       (storeUserToken ''s1'' ''tok'' (Some (Fin 0)) 1000 \<lparr> pendingStates = Map.empty, userTokens = Map.empty \<rparr>)
       ''s1'')) = None
   \<and> fst (getStoredUserToken (Some ''s1'') 999999
       (storeUserToken ''s1'' ''tok'' (Some (Fin 0)) 1000 \<lparr> pendingStates = Map.empty, userTokens = Map.empty \<rparr>))
     = Some ''tok''
   \<and> userTokens (storeUserToken [] ''tok'' None 1000 \<lparr> pendingStates = Map.empty, userTokens = Map.empty \<rparr>) []
     = Some \<lparr> userToken = ''tok'', userExpiresAt = None \<rparr>
   \<and> fst (getStoredUserToken (Some []) 1000
       (storeUserToken [] ''tok'' None 1000 \<lparr> pendingStates = Map.empty, userTokens = Map.empty \<rparr>))
     = None"
  by (simp add: storeUserToken_def getStoredUserToken_def Let_def opt_truthy_def str_truthy_def
        js_truthy_def)

text \<open>
  Claim C8. A token exchange whose \<open>grant_type\<close> is anything but
  \<open>authorization_code\<close> (or is missing) is answered with status 400 and the error
  \<open>invalid_request\<close>. The stateless handler has no access to any store of user tokens, and
  the listener leaves the session tokens as they are on that route; the handler of the
  session-tracking build returns its store unchanged.
\<close>

theorem token_exchange_rejects_other_grants:
  assumes "sp_get params ''grant_type'' \<noteq> Some ''authorization_code''"
  shows "handleOAuthToken params =
           \<lparr> status = 400,
             headers = [(''content-type'', ''application/json''), (''cache-control'', ''no-store''),
                        (''access-control-allow-origin'', ''*'')],
             location = None, body = JsonBody [(''error'', JString ''invalid_request'')] \<rparr>
       \<and> oauthToken_handleOAuthToken params now uuid st =
           (\<lparr> status = 400, headers = [(''content-type'', ''application/json'')],
              location = None, body = JsonBody [(''error'', JString ''invalid_request'')] \<rparr>, st)
       \<and> (route_request req = TokenPost \<longrightarrow> snd (main_request req ms) = ms)"
  using assms
  by (simp add: handleOAuthToken_def oauthToken_handleOAuthToken_def main_request_def Let_def)

theorem token_exchange_rejects_other_grants_witness:
  "status (handleOAuthToken [(''grant_type'', ''password''), (''code'', ''abc'')]) = 400
   \<and> oauthToken_handleOAuthToken [(''grant_type'', ''password''), (''code'', ''abc'')] 1000 ''uuid-1''
        \<lparr> pendingStates = Map.empty, userTokens = Map.empty \<rparr>
      = (\<lparr> status = 400, headers = [(''content-type'', ''application/json'')],
            location = None, body = JsonBody [(''error'', JString ''invalid_request'')] \<rparr>,
         \<lparr> pendingStates = Map.empty, userTokens = Map.empty \<rparr>)
   \<and> snd (main_request \<lparr> req_method = ''POST'', rawPath = ''/oauth/token'', authorization = None,
                          mcp_session_id = None \<rparr>
             \<lparr> sessionTokens = Map.empty, pendingToken = Some ''u'' \<rparr>)
      = \<lparr> sessionTokens = Map.empty, pendingToken = Some ''u'' \<rparr>"
proof -
  have h: "sp_get [(''grant_type'', ''password''), (''code'', ''abc'')] ''grant_type''
             \<noteq> Some ''authorization_code''"
    by (simp add: sp_get_def)
  have r: "route_request \<lparr> req_method = ''POST'', rawPath = ''/oauth/token'', authorization = None,
                          mcp_session_id = None \<rparr> = TokenPost"
    by (simp add: route_request_def stripMcpPrefix_def Let_def)
  show ?thesis
    using token_exchange_rejects_other_grants[OF h, of 1000 "''uuid-1''"
        "\<lparr> pendingStates = Map.empty, userTokens = Map.empty \<rparr>"
        "\<lparr> req_method = ''POST'', rawPath = ''/oauth/token'', authorization = None, mcp_session_id = None \<rparr>"
        "\<lparr> sessionTokens = Map.empty, pendingToken = Some ''u'' \<rparr>"] r
    by simp
qed

text \<open>
  Claim C2, amended. In the session-tracking server a callback is answered with the
  302 redirect only if it carries a non-empty token and a non-empty state that is a key of
  \<open>pendingStates\<close>; the redirect then goes to the target recorded for that state, with
  \<open>code\<close> set to the token and \<open>state\<close> to the state presented, the entry is deleted,
  and every later callback presenting that state is answered with status 400, carries no
  redirect and changes nothing. A callback whose state is recorded and not past its
  expiry, and whose recorded target parses, does get the redirect. The stateless server
  keeps no pending states: its callback redirects exactly when token, state and
  \<open>redirect_uri\<close> are present and the \<open>redirect_uri\<close> of the request parses, and the
  redirect then goes to that \<open>redirect_uri\<close> with \<open>code\<close> set to the token, \<open>state\<close>
  to the state presented and its other query parameters as they were.
\<close>

theorem oauth_callback_consumes_state:
  assumes run: "oauthServer_handleOAuthCallback parseURL params now uuid st = (res, st')"
  shows "((\<exists>tok state sd u. sp_get params ''music_user_token'' = Some tok \<and> tok \<noteq> []
               \<and> sp_get params ''state'' = Some state \<and> state \<noteq> []
               \<and> pendingStates st state = Some sd \<and> now \<le> stateExpiresAt sd
               \<and> parseURL (redirectUri sd) = Some u)
            \<longrightarrow> (\<exists>r. res = Inr r \<and> status r = 302))
       \<and> (\<forall>r. res = Inr r \<and> status r = 302 \<longrightarrow>
            (\<exists>tok state sd u q. sp_get params ''music_user_token'' = Some tok \<and> tok \<noteq> []
               \<and> sp_get params ''state'' = Some state \<and> state \<noteq> []
               \<and> pendingStates st state = Some sd \<and> parseURL (redirectUri sd) = Some u
               \<and> location r = Some (u\<lparr> searchParams := q \<rparr>)
               \<and> sp_get q ''code'' = Some tok \<and> sp_get q ''state'' = Some state
               \<and> pendingStates st' = (pendingStates st)(state := None)
               \<and> (\<forall>params2 now2 uuid2. sp_get params2 ''state'' = Some state \<longrightarrow>
                     (\<exists>r2. oauthServer_handleOAuthCallback parseURL params2 now2 uuid2 st'
                              = (Inr r2, st')
                        \<and> status r2 = 400 \<and> location r2 = None))))
       \<and> ((\<exists>r. handleOAuthCallback parseURL params = Inr r \<and> status r = 302) \<longleftrightarrow>
            (\<exists>tok state target u. sp_get params ''music_user_token'' = Some tok \<and> tok \<noteq> []
               \<and> sp_get params ''state'' = Some state \<and> state \<noteq> []
               \<and> sp_get params ''redirect_uri'' = Some target \<and> target \<noteq> []
               \<and> parseURL target = Some u))
       \<and> (\<forall>tok state target u. sp_get params ''music_user_token'' = Some tok \<and> tok \<noteq> []
               \<and> sp_get params ''state'' = Some state \<and> state \<noteq> []
               \<and> sp_get params ''redirect_uri'' = Some target \<and> target \<noteq> []
               \<and> parseURL target = Some u \<longrightarrow>
            (\<exists>q. handleOAuthCallback parseURL params =
                   Inr \<lparr> status = 302, headers = [(''cache-control'', ''no-store'')],
                         location = Some (u\<lparr> searchParams := q \<rparr>), body = NoBody \<rparr>
               \<and> sp_get q ''code'' = Some tok \<and> sp_get q ''state'' = Some state
               \<and> (\<forall>k. k \<noteq> ''code'' \<and> k \<noteq> ''state'' \<longrightarrow> sp_get q k = sp_get (searchParams u) k)))"
proof -
  let ?tok = "sp_get params ''music_user_token''" and ?state = "sp_get params ''state''"
  have target: "\<forall>tok state target u. sp_get params ''music_user_token'' = Some tok \<and> tok \<noteq> []
               \<and> sp_get params ''state'' = Some state \<and> state \<noteq> []
               \<and> sp_get params ''redirect_uri'' = Some target \<and> target \<noteq> []
               \<and> parseURL target = Some u \<longrightarrow>
            (\<exists>q. handleOAuthCallback parseURL params =
                   Inr \<lparr> status = 302, headers = [(''cache-control'', ''no-store'')],
                         location = Some (u\<lparr> searchParams := q \<rparr>), body = NoBody \<rparr>
               \<and> sp_get q ''code'' = Some tok \<and> sp_get q ''state'' = Some state
               \<and> (\<forall>k. k \<noteq> ''code'' \<and> k \<noteq> ''state'' \<longrightarrow> sp_get q k = sp_get (searchParams u) k))"
  proof (intro allI impI, elim conjE)
    fix tok state target u
    assume a: "sp_get params ''music_user_token'' = Some tok" "tok \<noteq> []"
      "sp_get params ''state'' = Some state" "state \<noteq> []"
      "sp_get params ''redirect_uri'' = Some target" "target \<noteq> []"
      "parseURL target = Some u"
    let ?q = "sp_set ''state'' state (sp_set ''code'' tok (searchParams u))"
    have r: "handleOAuthCallback parseURL params =
                   Inr \<lparr> status = 302, headers = [(''cache-control'', ''no-store'')],
                         location = Some (u\<lparr> searchParams := ?q \<rparr>), body = NoBody \<rparr>"
      using a by (simp add: handleOAuthCallback_def Let_def opt_truthy_def str_truthy_def)
    have c: "sp_get ?q ''code'' = Some tok" "sp_get ?q ''state'' = Some state"
      by (simp_all add: sp_get_set_same sp_get_set_other)
    have o: "\<forall>k. k \<noteq> ''code'' \<and> k \<noteq> ''state'' \<longrightarrow> sp_get ?q k = sp_get (searchParams u) k"
      by (simp add: sp_get_set_other)
    from r c o
    show "\<exists>q. handleOAuthCallback parseURL params =
                   Inr \<lparr> status = 302, headers = [(''cache-control'', ''no-store'')],
                         location = Some (u\<lparr> searchParams := q \<rparr>), body = NoBody \<rparr>
               \<and> sp_get q ''code'' = Some tok \<and> sp_get q ''state'' = Some state
               \<and> (\<forall>k. k \<noteq> ''code'' \<and> k \<noteq> ''state'' \<longrightarrow> sp_get q k = sp_get (searchParams u) k)"
      by blast
  qed
  have stateless: "(\<exists>r. handleOAuthCallback parseURL params = Inr r \<and> status r = 302) \<longleftrightarrow>
            (\<exists>tok state target u. sp_get params ''music_user_token'' = Some tok \<and> tok \<noteq> []
               \<and> sp_get params ''state'' = Some state \<and> state \<noteq> []
               \<and> sp_get params ''redirect_uri'' = Some target \<and> target \<noteq> []
               \<and> parseURL target = Some u)"
    by (auto simp: handleOAuthCallback_def Let_def opt_truthy_def str_truthy_def
          split: option.splits)
  have server: "((\<exists>tok state sd u. sp_get params ''music_user_token'' = Some tok \<and> tok \<noteq> []
               \<and> sp_get params ''state'' = Some state \<and> state \<noteq> []
               \<and> pendingStates st state = Some sd \<and> now \<le> stateExpiresAt sd
               \<and> parseURL (redirectUri sd) = Some u)
            \<longrightarrow> (\<exists>r. res = Inr r \<and> status r = 302))
       \<and> (\<forall>r. res = Inr r \<and> status r = 302 \<longrightarrow>
            (\<exists>tok state sd u q. sp_get params ''music_user_token'' = Some tok \<and> tok \<noteq> []
               \<and> sp_get params ''state'' = Some state \<and> state \<noteq> []
               \<and> pendingStates st state = Some sd \<and> parseURL (redirectUri sd) = Some u
               \<and> location r = Some (u\<lparr> searchParams := q \<rparr>)
               \<and> sp_get q ''code'' = Some tok \<and> sp_get q ''state'' = Some state
               \<and> pendingStates st' = (pendingStates st)(state := None)
               \<and> (\<forall>params2 now2 uuid2. sp_get params2 ''state'' = Some state \<longrightarrow>
                     (\<exists>r2. oauthServer_handleOAuthCallback parseURL params2 now2 uuid2 st'
                              = (Inr r2, st')
                        \<and> status r2 = 400 \<and> location r2 = None))))"
  proof (cases "opt_truthy ?tok \<and> opt_truthy ?state")
    case False
    with run show ?thesis
      by (auto simp: oauthServer_handleOAuthCallback_def Let_def opt_truthy_def str_truthy_def
            split: option.splits)
  next
    case True
    then obtain tok state where ts: "?tok = Some tok" "tok \<noteq> []" "?state = Some state" "state \<noteq> []"
      by (auto simp: opt_truthy_def str_truthy_def split: option.splits)
    show ?thesis
    proof (cases "pendingStates st state")
      case None
      with run ts show ?thesis
        by (auto simp: oauthServer_handleOAuthCallback_def Let_def opt_truthy_def str_truthy_def)
    next
      case (Some sd)
      note sd = this
      show ?thesis
      proof (cases "parseURL (redirectUri sd)")
        case None
        with run ts sd show ?thesis
          by (auto simp: oauthServer_handleOAuthCallback_def Let_def opt_truthy_def str_truthy_def)
      next
        case (Some u)
        from run ts sd Some
        have res: "res = Inr \<lparr> status = 302, headers = [],
                           location = Some (u\<lparr> searchParams :=
                             sp_set ''state'' state (sp_set ''code'' tok (searchParams u)) \<rparr>),
                           body = NoBody \<rparr>"
          and st': "st' = storeUserToken uuid tok None now
                            (st\<lparr> pendingStates := (pendingStates st)(state := None) \<rparr>)"
          by (auto simp: oauthServer_handleOAuthCallback_def Let_def opt_truthy_def str_truthy_def)
        have gone: "pendingStates st' = (pendingStates st)(state := None)"
          by (simp add: st')
        have second: "\<exists>r2. oauthServer_handleOAuthCallback parseURL params2 now2 uuid2 st'
                              = (Inr r2, st')
                        \<and> status r2 = 400 \<and> location r2 = None"
          if "sp_get params2 ''state'' = Some state" for params2 now2 uuid2
          using that gone ts(4)
          by (auto simp: oauthServer_handleOAuthCallback_def Let_def opt_truthy_def str_truthy_def)
        have q: "sp_get (sp_set ''state'' state (sp_set ''code'' tok (searchParams u))) ''code'' = Some tok"
                "sp_get (sp_set ''state'' state (sp_set ''code'' tok (searchParams u))) ''state'' = Some state"
          by (simp_all add: sp_get_set_same sp_get_set_other)
        show ?thesis
          using ts sd Some res gone second q by auto
      qed
    qed
  qed
  from server stateless target show ?thesis by (intro conjI) blast+
qed

theorem oauth_callback_consumes_state_witness:
  "fst (oauthServer_handleOAuthCallback url_without_query
          [(''music_user_token'', ''T''), (''state'', ''S'')] 5000 ''uuid-1''
          \<lparr> pendingStates = [''S'' \<mapsto> \<lparr> redirectUri = ''https://app/cb'', stateExpiresAt = 601000 \<rparr>],
            userTokens = Map.empty \<rparr>)
     = Inr \<lparr> status = 302, headers = [],
             location = Some \<lparr> url_base = ''https://app/cb'',
                               searchParams = [(''code'', ''T''), (''state'', ''S'')] \<rparr>,
             body = NoBody \<rparr>
   \<and> (\<exists>r2. oauthServer_handleOAuthCallback url_without_query
               [(''music_user_token'', ''T''), (''state'', ''S'')] 6000 ''uuid-2''
               (snd (oauthServer_handleOAuthCallback url_without_query
                  [(''music_user_token'', ''T''), (''state'', ''S'')] 5000 ''uuid-1''
                  \<lparr> pendingStates = [''S'' \<mapsto> \<lparr> redirectUri = ''https://app/cb'', stateExpiresAt = 601000 \<rparr>],
                    userTokens = Map.empty \<rparr>))
             = (Inr r2, snd (oauthServer_handleOAuthCallback url_without_query
                  [(''music_user_token'', ''T''), (''state'', ''S'')] 5000 ''uuid-1''
                  \<lparr> pendingStates = [''S'' \<mapsto> \<lparr> redirectUri = ''https://app/cb'', stateExpiresAt = 601000 \<rparr>],
                    userTokens = Map.empty \<rparr>))
          \<and> status r2 = 400 \<and> location r2 = None)
   \<and> (\<exists>q. handleOAuthCallback url_without_query
               [(''music_user_token'', ''T''), (''state'', ''S''), (''redirect_uri'', ''https://app/cb'')]
             = Inr \<lparr> status = 302, headers = [(''cache-control'', ''no-store'')],
                     location = Some \<lparr> url_base = ''https://app/cb'', searchParams = q \<rparr>,
                     body = NoBody \<rparr>
          \<and> sp_get q ''code'' = Some ''T'' \<and> sp_get q ''state'' = Some ''S'')"
proof -
  let ?st = "\<lparr> pendingStates = [''S'' \<mapsto> \<lparr> redirectUri = ''https://app/cb'', stateExpiresAt = 601000 \<rparr>],
               userTokens = Map.empty \<rparr>"
  let ?params = "[(''music_user_token'', ''T''), (''state'', ''S'')]"
  let ?run = "oauthServer_handleOAuthCallback url_without_query ?params 5000 ''uuid-1'' ?st"
  have first: "fst ?run = Inr \<lparr> status = 302, headers = [],
             location = Some \<lparr> url_base = ''https://app/cb'',
                               searchParams = [(''code'', ''T''), (''state'', ''S'')] \<rparr>,
             body = NoBody \<rparr>"
    by (simp add: oauthServer_handleOAuthCallback_def Let_def opt_truthy_def str_truthy_def
          sp_get_def url_without_query_def)
  have h: "?run = (fst ?run, snd ?run)" by simp
  have s: "sp_get ?params ''state'' = Some ''S''" "sp_get ?params ''music_user_token'' = Some ''T''"
    by (simp_all add: sp_get_def)
  from oauth_callback_consumes_state[OF h] first s
  have second: "\<exists>r2. oauthServer_handleOAuthCallback url_without_query ?params 6000 ''uuid-2'' (snd ?run)
             = (Inr r2, snd ?run) \<and> status r2 = 400 \<and> location r2 = None"
    by (auto simp: sp_get_def)
  let ?params3 = "[(''music_user_token'', ''T''), (''state'', ''S''), (''redirect_uri'', ''https://app/cb'')]"
  let ?run3 = "oauthServer_handleOAuthCallback url_without_query ?params3 5000 ''uuid-1'' ?st"
  have h3: "?run3 = (fst ?run3, snd ?run3)" by simp
  have g: "sp_get ?params3 ''music_user_token'' = Some ''T'' \<and> ''T'' \<noteq> []
      \<and> sp_get ?params3 ''state'' = Some ''S'' \<and> ''S'' \<noteq> []
      \<and> sp_get ?params3 ''redirect_uri'' = Some ''https://app/cb'' \<and> ''https://app/cb'' \<noteq> []
      \<and> url_without_query ''https://app/cb'' = Some \<lparr> url_base = ''https://app/cb'', searchParams = [] \<rparr>"
    by (simp add: sp_get_def url_without_query_def)
  from oauth_callback_consumes_state[OF h3, THEN conjunct2, THEN conjunct2, THEN conjunct2,
      rule_format, OF g]
  have "\<exists>q. handleOAuthCallback url_without_query ?params3 =
                   Inr \<lparr> status = 302, headers = [(''cache-control'', ''no-store'')],
                         location = Some (\<lparr> url_base = ''https://app/cb'', searchParams = [] \<rparr>\<lparr> searchParams := q \<rparr>),
                         body = NoBody \<rparr>
               \<and> sp_get q ''code'' = Some ''T'' \<and> sp_get q ''state'' = Some ''S''"
    by (elim exE conjE) (intro exI conjI)
  then have stateless: "\<exists>q. handleOAuthCallback url_without_query ?params3
             = Inr \<lparr> status = 302, headers = [(''cache-control'', ''no-store'')],
                     location = Some \<lparr> url_base = ''https://app/cb'', searchParams = q \<rparr>,
                     body = NoBody \<rparr>
          \<and> sp_get q ''code'' = Some ''T'' \<and> sp_get q ''state'' = Some ''S''"
    by simp
  from first second stateless show ?thesis by (intro conjI)
qed

text \<open>
  Claim C2 as stated fails in both servers. In the session-tracking server a state
  recorded at time 1000 expires at 601000; the sweep that ran at 600000 kept it, and the
  callback that presents it at 650000 is redirected, because the handler looks the state
  up and never reads its expiry. In the stateless server a callback is redirected for a
  state no authorize request ever issued.
\<close>

theorem oauth_callback_accepts_expired_or_unknown_state:
  "fst (oauthServer_handleOAuthCallback url_without_query
          [(''music_user_token'', ''T''), (''state'', ''S'')] 650000 ''uuid-1''
          (sweepPendingStates 600000
             (snd (oauthServer_handleOAuthAuthorize
                     [(''redirect_uri'', ''https://app/cb''), (''state'', ''S'')] 1000 (Inr ''dev'')
                     \<lparr> pendingStates = Map.empty, userTokens = Map.empty \<rparr>))))
     = Inr \<lparr> status = 302, headers = [],
             location = Some \<lparr> url_base = ''https://app/cb'',
                               searchParams = [(''code'', ''T''), (''state'', ''S'')] \<rparr>,
             body = NoBody \<rparr>
   \<and> pendingStates (sweepPendingStates 600000
             (snd (oauthServer_handleOAuthAuthorize
                     [(''redirect_uri'', ''https://app/cb''), (''state'', ''S'')] 1000 (Inr ''dev'')
                     \<lparr> pendingStates = Map.empty, userTokens = Map.empty \<rparr>))) ''S''
     = Some \<lparr> redirectUri = ''https://app/cb'', stateExpiresAt = 601000 \<rparr>
   \<and> handleOAuthCallback url_without_query
        [(''music_user_token'', ''T''), (''state'', ''never-issued''),
         (''redirect_uri'', ''https://app/cb'')]
     = Inr \<lparr> status = 302, headers = [(''cache-control'', ''no-store'')],
             location = Some \<lparr> url_base = ''https://app/cb'',
                               searchParams = [(''code'', ''T''), (''state'', ''never-issued'')] \<rparr>,
             body = NoBody \<rparr>"
  by (simp add: oauthServer_handleOAuthCallback_def oauthServer_handleOAuthAuthorize_def
        sweepPendingStates_def handleOAuthCallback_def Let_def opt_truthy_def str_truthy_def
        sp_get_def url_without_query_def)

section \<open>Bearer headers and session tokens\<close>

lemma split_space_nospace: "CHR '' '' \<notin> set s \<Longrightarrow> split_space s = [s]"
  by (induction s) auto

lemma split_space_append:
  "CHR '' '' \<notin> set s \<Longrightarrow> split_space (s @ CHR '' '' # t) = s # split_space t"
  by (induction s) auto

lemma split_space_nonempty: "split_space a \<noteq> []"
  by (induction a) (auto split: list.splits)

lemma split_space_cons:
  "split_space a = x # ys \<Longrightarrow>
     CHR '' '' \<notin> set x
     \<and> (if ys = [] then a = x else (\<exists>t. a = x @ CHR '' '' # t \<and> split_space t = ys))"
proof (induction a arbitrary: x ys)
  case Nil
  then show ?case by simp
next
  case (Cons c cs)
  show ?case
  proof (cases "c = CHR '' ''")
    case True
    with Cons.prems show ?thesis by (auto simp: split_space_nonempty)
  next
    case False
    obtain w ws where w: "split_space cs = w # ws"
      using split_space_nonempty by (cases "split_space cs") auto
    from Cons.IH[OF w] have ih: "CHR '' '' \<notin> set w"
      "if ws = [] then cs = w else (\<exists>t. cs = w @ CHR '' '' # t \<and> split_space t = ws)"
      by auto
    from Cons.prems False w have x: "x = c # w" "ys = ws" by auto
    show ?thesis using ih False x by (auto split: if_splits)
  qed
qed

text \<open>
  Claim C10, amended. \<open>parseBearerToken\<close> returns a value for every input, and it returns
  a credential exactly when the header starts with a non-empty scheme free of spaces, one
  space, and a non-empty value free of spaces, where the scheme is \<open>bearer\<close> in any
  mix of cases and the value is followed by nothing or by a space and any further text.
  The credential is that value with surrounding white space trimmed; what follows the
  value is ignored. An absent or empty header, an empty scheme or value and every other
  scheme give no credential.
\<close>

theorem parseBearerToken_characterisation:
  "parseBearerToken h = Some c \<longleftrightarrow>
     (\<exists>scheme v rest. h = Some (scheme @ CHR '' '' # v @ rest)
        \<and> scheme \<noteq> [] \<and> v \<noteq> [] \<and> CHR '' '' \<notin> set scheme \<and> CHR '' '' \<notin> set v
        \<and> (rest = [] \<or> hd rest = CHR '' '')
        \<and> toLowerCase scheme = ''bearer'' \<and> c = trim v)"
  (is "?L \<longleftrightarrow> ?R")
proof
  assume L: ?L
  then obtain a where a: "h = Some a" "a \<noteq> []"
    by (cases h) (auto simp: parseBearerToken_def opt_truthy_def str_truthy_def split: if_splits)
  from L a obtain scheme v more where sp: "split_space a = scheme # v # more"
    and ok: "scheme \<noteq> []" "v \<noteq> []" "toLowerCase scheme = ''bearer''" "c = trim v"
    by (auto simp: parseBearerToken_def opt_truthy_def str_truthy_def
          split: if_splits list.splits)
  from split_space_cons[OF sp] obtain t
    where t: "CHR '' '' \<notin> set scheme" "a = scheme @ CHR '' '' # t" "split_space t = v # more"
    by auto
  from split_space_cons[OF t(3)] have v: "CHR '' '' \<notin> set v"
    "if more = [] then t = v else (\<exists>r. t = v @ CHR '' '' # r \<and> split_space r = more)"
    by auto
  then obtain rest where "t = v @ rest" "rest = [] \<or> hd rest = CHR '' ''"
    by (cases "more = []") auto
  with a t v ok show ?R by auto
next
  assume ?R
  then obtain scheme v rest where r: "h = Some (scheme @ CHR '' '' # v @ rest)"
    "scheme \<noteq> []" "v \<noteq> []" "CHR '' '' \<notin> set scheme" "CHR '' '' \<notin> set v"
    "rest = [] \<or> hd rest = CHR '' ''" "toLowerCase scheme = ''bearer''" "c = trim v"
    by blast
  have "\<exists>more. split_space (v @ rest) = v # more"
  proof (cases rest)
    case Nil
    then show ?thesis using r(5) by (simp add: split_space_nospace)
  next
    case (Cons x xs)
    with r(6) have "rest = CHR '' '' # xs" by simp
    then show ?thesis using r(5) by (simp add: split_space_append)
  qed
  then obtain more where "split_space (v @ rest) = v # more" ..
  with r show ?L
    by (simp add: parseBearerToken_def opt_truthy_def str_truthy_def split_space_append)
qed

theorem parseBearerToken_characterisation_witness:
  "parseBearerToken (Some ''BEARER abc'') = Some ''abc''"
proof -
  have d: "Some ''BEARER abc'' = Some (''BEARER'' @ CHR '' '' # ''abc'' @ [])
        \<and> ''BEARER'' \<noteq> [] \<and> ''abc'' \<noteq> [] \<and> CHR '' '' \<notin> set ''BEARER'' \<and> CHR '' '' \<notin> set ''abc''
        \<and> ([] = [] \<or> hd [] = CHR '' '')
        \<and> toLowerCase ''BEARER'' = ''bearer'' \<and> ''abc'' = trim ''abc''"
    by (simp add: toLowerCase_def lower_char_def trim_def is_js_space_def)
  then have "\<exists>scheme v rest. Some ''BEARER abc'' = Some (scheme @ CHR '' '' # v @ rest)
        \<and> scheme \<noteq> [] \<and> v \<noteq> [] \<and> CHR '' '' \<notin> set scheme \<and> CHR '' '' \<notin> set v
        \<and> (rest = [] \<or> hd rest = CHR '' '')
        \<and> toLowerCase scheme = ''bearer'' \<and> ''abc'' = trim v"
    by blast
  then show ?thesis
    by (rule parseBearerToken_characterisation[THEN iffD2])
qed

text \<open>
  Claim C10 as stated accepts a header only when it splits into a scheme and a value.
  The header \<open>Bearer a b\<close> splits on single spaces into three pieces, and
  \<open>parseBearerToken\<close> still returns a credential: the second piece \<open>a\<close>, not the text
  \<open>a b\<close> after the scheme.
\<close>

theorem parseBearerToken_ignores_trailing_pieces:
  "parseBearerToken (Some ''Bearer a b'') = Some ''a''
   \<and> split_space ''Bearer a b'' = [''Bearer'', ''a'', ''b'']"
  by (simp add: parseBearerToken_def opt_truthy_def str_truthy_def toLowerCase_def
        lower_char_def trim_def is_js_space_def)

lemma route_needs_authorization:
  "\<not> opt_truthy (authorization req) \<Longrightarrow> route_request req \<noteq> McpTransport"
  by (auto simp: route_request_def Let_def)

lemma route_mcp_unauthorized:
  "rawPath req = ''/mcp'' \<Longrightarrow> \<not> opt_truthy (authorization req) \<Longrightarrow>
     route_request req = Unauthorized401"
  by (simp add: route_request_def stripMcpPrefix_def Let_def)

lemma parseBearerToken_header_nonempty:
  "parseBearerToken (Some h) = Some u \<Longrightarrow> h \<noteq> []"
  by (auto simp: parseBearerToken_def opt_truthy_def str_truthy_def split: if_splits)

lemma bindTokens_bearer:
  assumes "parseBearerToken (Some h) = Some u" "u \<noteq> []" "sid \<noteq> []"
  shows "bindTokens (Some h) (Some sid) st =
     st\<lparr> pendingToken := Some u, sessionTokens := (sessionTokens st)(sid \<mapsto> u) \<rparr>"
  using assms parseBearerToken_header_nonempty[OF assms(1)]
  by (simp add: bindTokens_def opt_truthy_def str_truthy_def Let_def)

lemma bindTokens_no_bearer:
  assumes "opt_truthy h" "parseBearerToken h = None \<or> parseBearerToken h = Some []"
  shows "bindTokens h sid st = st"
  using assms by (auto simp: bindTokens_def str_truthy_def)

lemma main_request_keeps_session:
  assumes "\<not> (route_request req = McpTransport \<and> mcp_session_id req = Some sid
              \<and> (\<exists>u. parseBearerToken (authorization req) = Some u \<and> u \<noteq> []))"
    and "sid \<noteq> []"
  shows "sessionTokens (snd (main_request req st)) sid = sessionTokens st sid"
proof (cases "route_request req = McpTransport")
  case False
  then show ?thesis by (simp add: main_request_def)
next
  case True
  then have auth: "opt_truthy (authorization req)"
    using route_needs_authorization by blast
  show ?thesis
  proof (cases "parseBearerToken (authorization req)")
    case None
    with True auth show ?thesis by (simp add: main_request_def bindTokens_def)
  next
    case (Some u)
    show ?thesis
    proof (cases "u = []")
      case True
      with \<open>route_request req = McpTransport\<close> auth Some show ?thesis
        by (simp add: main_request_def bindTokens_def str_truthy_def)
    next
      case False
      with assms(1) \<open>route_request req = McpTransport\<close> Some
      have "mcp_session_id req \<noteq> Some sid" by simp
      with \<open>route_request req = McpTransport\<close> auth Some False assms(2) show ?thesis
        by (cases "mcp_session_id req")
           (auto simp: main_request_def bindTokens_def str_truthy_def opt_truthy_def Let_def)
    qed
  qed
qed

lemma main_requests_keeps_session:
  assumes "\<forall>req\<in>set reqs. \<not> (route_request req = McpTransport \<and> mcp_session_id req = Some sid
              \<and> (\<exists>u. parseBearerToken (authorization req) = Some u \<and> u \<noteq> []))"
    and "sid \<noteq> []"
  shows "sessionTokens (main_requests reqs st) sid = sessionTokens st sid"
  using assms(1)
proof (induction reqs arbitrary: st)
  case Nil
  show ?case by simp
next
  case (Cons req reqs)
  have "sessionTokens (main_requests reqs (snd (main_request req st))) sid
          = sessionTokens (snd (main_request req st)) sid"
    using Cons by simp
  also have "\<dots> = sessionTokens st sid"
    using Cons.prems assms(2) by (intro main_request_keeps_session) simp_all
  finally show ?case by simp
qed

text \<open>
  Claim C5, amended. A request that reaches the transport with a bearer credential \<open>u1\<close>
  and a session id binds \<open>u1\<close> under that session id (and holds it as the pending
  token), so the tool handler of that session computes \<open>u1\<close>. The binding stays through
  every sequence of later requests none of which reaches the transport with a bearer
  credential on that session, whatever they do on other sessions and to the pending
  token: after them, a request on the session that reaches the transport with an
  Authorization header carrying no bearer credential still computes \<open>u1\<close>, and one that
  presents another bearer credential on the session computes that one. A later request
  without an Authorization header never reaches a tool handler: the listener answers it
  itself (with status 401 on \<open>/mcp\<close>) and the session tokens stay as they are.
\<close>

theorem session_binding:
  assumes r1: "route_request req1 = McpTransport"
    and a1: "authorization req1 = Some h1" "parseBearerToken (Some h1) = Some u1" "u1 \<noteq> []"
    and s1: "mcp_session_id req1 = Some sid" "sid \<noteq> []"
    and ex: "resolveSessionId extra = Some sid"
    and later: "\<forall>req\<in>set reqs. \<not> (route_request req = McpTransport \<and> mcp_session_id req = Some sid
                  \<and> (\<exists>u. parseBearerToken (authorization req) = Some u \<and> u \<noteq> []))"
  shows "sessionTokens (snd (main_request req1 st)) sid = Some u1
       \<and> pendingToken (snd (main_request req1 st)) = Some u1
       \<and> request_userToken req1 extra st = Some (Some u1)
       \<and> sessionTokens (main_requests reqs (snd (main_request req1 st))) sid = Some u1
       \<and> (\<not> opt_truthy (authorization req2) \<longrightarrow>
            request_userToken req2 extra (main_requests reqs (snd (main_request req1 st))) = None
            \<and> snd (main_request req2 (main_requests reqs (snd (main_request req1 st))))
                = main_requests reqs (snd (main_request req1 st))
            \<and> (rawPath req2 = ''/mcp'' \<longrightarrow> route_request req2 = Unauthorized401))
       \<and> (route_request req2 = McpTransport
            \<and> (parseBearerToken (authorization req2) = None
                 \<or> parseBearerToken (authorization req2) = Some [])
            \<longrightarrow> request_userToken req2 extra (main_requests reqs (snd (main_request req1 st)))
                  = Some (Some u1))
       \<and> (\<forall>u2. route_request req2 = McpTransport \<and> mcp_session_id req2 = Some sid
            \<and> parseBearerToken (authorization req2) = Some u2 \<and> u2 \<noteq> []
            \<longrightarrow> request_userToken req2 extra (main_requests reqs (snd (main_request req1 st)))
                  = Some (Some u2))"
proof -
  let ?st1 = "snd (main_request req1 st)"
  let ?stn = "main_requests reqs ?st1"
  have st1: "?st1 = st\<lparr> pendingToken := Some u1, sessionTokens := (sessionTokens st)(sid \<mapsto> u1) \<rparr>"
    using r1 a1 s1 by (simp add: main_request_def bindTokens_bearer)
  have tool: "tool_userToken extra s = sessionTokens s sid" for s
    using ex s1 by (simp add: tool_userToken_def opt_truthy_def str_truthy_def Let_def)
  have A: "sessionTokens ?st1 sid = Some u1" "pendingToken ?st1 = Some u1"
    by (simp_all add: st1)
  have B: "request_userToken req1 extra st = Some (Some u1)"
    using r1 A by (simp add: request_userToken_def main_request_def tool Let_def)
  have N: "sessionTokens ?stn sid = Some u1"
    using main_requests_keeps_session[OF later s1(2), of ?st1] A(1) by simp
  have C: "request_userToken req2 extra ?stn = None" "snd (main_request req2 ?stn) = ?stn"
    if "\<not> opt_truthy (authorization req2)"
    using route_needs_authorization[OF that]
    by (auto simp: request_userToken_def main_request_def Let_def split: route.splits)
  have D: "request_userToken req2 extra ?stn = Some (Some u1)"
    if r2: "route_request req2 = McpTransport"
      and nb: "parseBearerToken (authorization req2) = None
                 \<or> parseBearerToken (authorization req2) = Some []"
  proof -
    have "opt_truthy (authorization req2)"
      using r2 route_needs_authorization by blast
    then have "bindTokens (authorization req2) (mcp_session_id req2) ?stn = ?stn"
      using nb by (rule bindTokens_no_bearer)
    then show ?thesis
      using r2 N by (simp add: request_userToken_def main_request_def tool Let_def)
  qed
  have E: "request_userToken req2 extra ?stn = Some (Some u2)"
    if r2: "route_request req2 = McpTransport" and s2: "mcp_session_id req2 = Some sid"
      and b2: "parseBearerToken (authorization req2) = Some u2" "u2 \<noteq> []" for u2
  proof -
    have "opt_truthy (authorization req2)"
      using r2 route_needs_authorization by blast
    then obtain h2 where h2: "authorization req2 = Some h2"
      by (cases "authorization req2") (simp_all add: opt_truthy_def)
    have "bindTokens (authorization req2) (mcp_session_id req2) ?stn =
            ?stn\<lparr> pendingToken := Some u2, sessionTokens := (sessionTokens ?stn)(sid \<mapsto> u2) \<rparr>"
      unfolding h2 s2 using b2 s1(2) by (intro bindTokens_bearer) (simp_all add: h2)
    then show ?thesis
      using r2 by (simp add: request_userToken_def main_request_def tool Let_def)
  qed
  show ?thesis using A B N C D E route_mcp_unauthorized by blast
qed

theorem session_binding_witness:
  "request_userToken
      \<lparr> req_method = ''POST'', rawPath = ''/mcp'', authorization = Some ''Bearer U1'',
        mcp_session_id = Some ''S1'' \<rparr>
      (Some \<lparr> sessionId = Some ''S1'', requestHeaders = None \<rparr>)
      \<lparr> sessionTokens = Map.empty, pendingToken = None \<rparr> = Some (Some ''U1'')
   \<and> request_userToken
      \<lparr> req_method = ''POST'', rawPath = ''/mcp'', authorization = Some ''Basic xyz'',
        mcp_session_id = Some ''S1'' \<rparr>
      (Some \<lparr> sessionId = Some ''S1'', requestHeaders = None \<rparr>)
      (main_requests
         [\<lparr> req_method = ''POST'', rawPath = ''/mcp'', authorization = Some ''Bearer U2'',
            mcp_session_id = Some ''S2'' \<rparr>,
          \<lparr> req_method = ''POST'', rawPath = ''/mcp'', authorization = Some ''Bearer U3'',
            mcp_session_id = None \<rparr>]
         (snd (main_request
            \<lparr> req_method = ''POST'', rawPath = ''/mcp'', authorization = Some ''Bearer U1'',
              mcp_session_id = Some ''S1'' \<rparr>
            \<lparr> sessionTokens = Map.empty, pendingToken = None \<rparr>))) = Some (Some ''U1'')
   \<and> pendingToken
      (main_requests
         [\<lparr> req_method = ''POST'', rawPath = ''/mcp'', authorization = Some ''Bearer U2'',
            mcp_session_id = Some ''S2'' \<rparr>,
          \<lparr> req_method = ''POST'', rawPath = ''/mcp'', authorization = Some ''Bearer U3'',
            mcp_session_id = None \<rparr>]
         (snd (main_request
            \<lparr> req_method = ''POST'', rawPath = ''/mcp'', authorization = Some ''Bearer U1'',
              mcp_session_id = Some ''S1'' \<rparr>
            \<lparr> sessionTokens = Map.empty, pendingToken = None \<rparr>))) = Some ''U3''"
proof -
  let ?req1 = "\<lparr> req_method = ''POST'', rawPath = ''/mcp'', authorization = Some ''Bearer U1'',
        mcp_session_id = Some ''S1'' \<rparr>"
  let ?reqa = "\<lparr> req_method = ''POST'', rawPath = ''/mcp'', authorization = Some ''Bearer U2'',
        mcp_session_id = Some ''S2'' \<rparr>"
  let ?reqb = "\<lparr> req_method = ''POST'', rawPath = ''/mcp'', authorization = Some ''Bearer U3'',
        mcp_session_id = None \<rparr>"
  let ?req2 = "\<lparr> req_method = ''POST'', rawPath = ''/mcp'', authorization = Some ''Basic xyz'',
        mcp_session_id = Some ''S1'' \<rparr>"
  let ?extra = "Some \<lparr> sessionId = Some ''S1'', requestHeaders = None \<rparr>"
  let ?st0 = "\<lparr> sessionTokens = Map.empty, pendingToken = None \<rparr>"
  have h: "route_request ?req1 = McpTransport" "authorization ?req1 = Some ''Bearer U1''"
    "parseBearerToken (Some ''Bearer U1'') = Some ''U1''" "''U1'' \<noteq> []"
    "mcp_session_id ?req1 = Some ''S1''" "''S1'' \<noteq> []"
    "resolveSessionId ?extra = Some ''S1''"
    by (simp_all add: route_request_def stripMcpPrefix_def Let_def opt_truthy_def str_truthy_def
          parseBearerToken_def toLowerCase_def lower_char_def trim_def is_js_space_def
          resolveSessionId_def)
  have l: "\<forall>req\<in>set [?reqa, ?reqb]. \<not> (route_request req = McpTransport
              \<and> mcp_session_id req = Some ''S1''
              \<and> (\<exists>u. parseBearerToken (authorization req) = Some u \<and> u \<noteq> []))"
    by simp
  have g: "route_request ?req2 = McpTransport
      \<and> (parseBearerToken (authorization ?req2) = None
           \<or> parseBearerToken (authorization ?req2) = Some [])"
    by (simp add: route_request_def stripMcpPrefix_def Let_def opt_truthy_def str_truthy_def
          parseBearerToken_def toLowerCase_def lower_char_def)
  note T = session_binding[OF h l, of ?st0 ?req2]
  have first: "request_userToken ?req1 ?extra ?st0 = Some (Some ''U1'')"
    by (rule T[THEN conjunct2, THEN conjunct2, THEN conjunct1])
  have second: "request_userToken ?req2 ?extra (main_requests [?reqa, ?reqb] (snd (main_request ?req1 ?st0)))
                  = Some (Some ''U1'')"
    by (rule mp[OF T[THEN conjunct2, THEN conjunct2, THEN conjunct2, THEN conjunct2,
          THEN conjunct2, THEN conjunct1] g])
  have pend: "pendingToken (main_requests [?reqa, ?reqb] (snd (main_request ?req1 ?st0))) = Some ''U3''"
    by (simp add: main_request_def route_request_def stripMcpPrefix_def Let_def opt_truthy_def
          str_truthy_def bindTokens_def parseBearerToken_def toLowerCase_def lower_char_def
          trim_def is_js_space_def)
  from first second pend show ?thesis by (intro conjI)
qed

text \<open>
  Claim C5 as stated has the second request, which carries the session id and no bearer
  header, resolve to the bound credential. After the first request has bound \<open>U1\<close> under
  \<open>S1\<close>, the request to \<open>/mcp\<close> with session \<open>S1\<close> and no Authorization header is
  answered with 401 and no tool handler computes a user token for it.
\<close>

theorem session_only_request_unauthorized:
  "sessionTokens (snd (main_request
       \<lparr> req_method = ''POST'', rawPath = ''/mcp'', authorization = Some ''Bearer U1'',
         mcp_session_id = Some ''S1'' \<rparr>
       \<lparr> sessionTokens = Map.empty, pendingToken = None \<rparr>)) ''S1'' = Some ''U1''
   \<and> main_request
       \<lparr> req_method = ''POST'', rawPath = ''/mcp'', authorization = None,
         mcp_session_id = Some ''S1'' \<rparr>
       \<lparr> sessionTokens = [''S1'' \<mapsto> ''U1''], pendingToken = Some ''U1'' \<rparr>
     = (Unauthorized401, \<lparr> sessionTokens = [''S1'' \<mapsto> ''U1''], pendingToken = Some ''U1'' \<rparr>)
   \<and> request_userToken
       \<lparr> req_method = ''POST'', rawPath = ''/mcp'', authorization = None,
         mcp_session_id = Some ''S1'' \<rparr>
       (Some \<lparr> sessionId = Some ''S1'', requestHeaders = None \<rparr>)
       (snd (main_request
          \<lparr> req_method = ''POST'', rawPath = ''/mcp'', authorization = Some ''Bearer U1'',
            mcp_session_id = Some ''S1'' \<rparr>
          \<lparr> sessionTokens = Map.empty, pendingToken = None \<rparr>)) = None"
  by (simp add: request_userToken_def main_request_def route_request_def stripMcpPrefix_def
        Let_def opt_truthy_def str_truthy_def bindTokens_def parseBearerToken_def
        toLowerCase_def lower_char_def trim_def is_js_space_def)



end
